theory Spec2Isabelle
  imports Main "HOL-Library.Word"
begin

section \<open>JavaScript strings and the helpers the clients call\<close>

text \<open>
  A JavaScript string is a sequence of UTF-16 code units; \<open>length\<close>, \<open>slice\<close>,
  \<open>trim\<close> and \<open>includes\<close> all work on code units. \<open>lit\<close> embeds an ASCII literal
  of the source.
\<close>

type_synonym js_string = "16 word list"

definition lit :: "string \<Rightarrow> js_string" where
  "lit s = map (\<lambda>c. of_char c) s"

text \<open>
  \<open>String.prototype.trim\<close> removes the ECMAScript WhiteSpace and LineTerminator code units
  from both ends.
\<close>

definition is_ws :: "16 word \<Rightarrow> bool" where
  "is_ws c \<longleftrightarrow>
     c = 0x09 \<or> c = 0x0A \<or> c = 0x0B \<or> c = 0x0C \<or> c = 0x0D \<or> c = 0x20 \<or> c = 0xA0 \<or>
     c = 0x1680 \<or> (0x2000 \<le> c \<and> c \<le> 0x200A) \<or> c = 0x2028 \<or> c = 0x2029 \<or>
     c = 0x202F \<or> c = 0x205F \<or> c = 0x3000 \<or> c = 0xFEFF"

definition trim :: "js_string \<Rightarrow> js_string" where
  "trim s = rev (dropWhile is_ws (rev (dropWhile is_ws s)))"

fun startsWith :: "'a list \<Rightarrow> 'a list \<Rightarrow> bool" where
  "startsWith s [] = True"
| "startsWith [] (p # ps) = False"
| "startsWith (c # cs) (p # ps) = (c = p \<and> startsWith cs ps)"

text \<open>\<open>s.includes(pat)\<close>: \<open>pat\<close> occurs in \<open>s\<close> as a contiguous run.\<close>

fun includes_str :: "'a list \<Rightarrow> 'a list \<Rightarrow> bool" where
  "includes_str [] pat = (pat = [])"
| "includes_str (c # cs) pat = (startsWith (c # cs) pat \<or> includes_str cs pat)"

text \<open>Template-literal rendering of a non-negative integer, as in \<open>`${Date.now()}`\<close>.\<close>

function digits :: "nat \<Rightarrow> js_string" where
  "digits n = (if n < 10 then [of_nat (48 + n)]
               else digits (n div 10) @ [of_nat (48 + n mod 10)])"
  by pat_completeness auto
termination
  by (relation "measure (\<lambda>n. n)") auto

declare digits.simps [simp del]

text \<open>Truthiness of a value of type \<open>string | null | undefined\<close>: absent and empty are falsy.\<close>

fun truthy :: "js_string option \<Rightarrow> bool" where
  "truthy None = False"
| "truthy (Some s) = (s \<noteq> [])"

text \<open>\<open>xs.find(p)\<close> and \<open>xs.findIndex(p)\<close> (the latter returns \<open>-1\<close> when nothing matches).\<close>

fun find_first :: "('a \<Rightarrow> bool) \<Rightarrow> 'a list \<Rightarrow> 'a option" where
  "find_first p [] = None"
| "find_first p (x # xs) = (if p x then Some x else find_first p xs)"

fun findIndex :: "('a \<Rightarrow> bool) \<Rightarrow> 'a list \<Rightarrow> int" where
  "findIndex p [] = -1"
| "findIndex p (x # xs) =
     (if p x then 0 else (let i = findIndex p xs in if i < 0 then -1 else i + 1))"

section \<open>The fetch call as seen by a caller\<close>

text \<open>
  What a \<open>catch\<close> clause can receive: an \<open>Error\<close> object with its message, or some other
  value.
\<close>

datatype thrown = ErrorObj js_string | NonError

text \<open>
  A JSON value in the place of \<open>detail\<close>, as far as \<open>new Error(detail || fallback)\<close> depends
  on it: whether it is truthy, and the message of the error made from it. A string is truthy
  when non-empty and is its own message. \<open>JNumber nonzero s\<close> is a number with string
  conversion \<open>s\<close>. \<open>JCompound s\<close> is an array or an object, always truthy; \<open>s\<close> is the
  message that results from \<open>throw new Error(v)\<close> for it: its string conversion (such as
  \<open>[object Object]\<close>), or the message of the \<open>TypeError\<close> raised when it has none.
\<close>

datatype json_value =
    JNull
  | JBool bool
  | JNumber bool js_string
  | JString js_string
  | JCompound js_string

fun js_truthy :: "json_value \<Rightarrow> bool" where
  "js_truthy JNull = False"
| "js_truthy (JBool b) = b"
| "js_truthy (JNumber nonzero s) = nonzero"
| "js_truthy (JString s) = (s \<noteq> [])"
| "js_truthy (JCompound s) = True"

fun error_text_of :: "json_value \<Rightarrow> js_string" where
  "error_text_of JNull = lit ''null''"
| "error_text_of (JBool b) = (if b then lit ''true'' else lit ''false'')"
| "error_text_of (JNumber nonzero s) = s"
| "error_text_of (JString s) = s"
| "error_text_of (JCompound s) = s"

text \<open>
  \<open>fetch\<close> either rejects or resolves to a response with a status. Reading the response
  with \<open>json()\<close> either rejects (\<open>BadJson\<close>), or yields \<open>null\<close>, or yields a value of which
  the callers read the property \<open>detail\<close> (on a failure status) or the payload (on success).
  \<open>JsonNull m\<close> is the body \<open>null\<close>; reading a property of it raises a \<open>TypeError\<close>, and
  \<open>m\<close> is the message the engine gives that error. In \<open>JsonObj d p\<close> the detail \<open>d\<close> is
  absent or any JSON value; the payload \<open>p\<close> is typed by the declared response contract of
  the endpoint and is read on success only. A failure body that is a number, a string, a
  boolean or an array has no \<open>detail\<close>: it is \<open>JsonObj None p\<close>, whatever \<open>p\<close>.
\<close>

datatype 'a json_body =
    BadJson thrown
  | JsonNull js_string
  | JsonObj (detail: "json_value option") (payload: 'a)

record 'a response =
  status :: nat
  body :: "'a json_body"

datatype 'a fetch_result = Rejected thrown | Responded "'a response"

definition response_ok :: "'a response \<Rightarrow> bool" where
  "response_ok r \<longleftrightarrow> 200 \<le> status r \<and> status r \<le> 299"

record http_request =
  url :: js_string
  http_method :: js_string
  headers :: "(js_string \<times> js_string) list"
  json_fields :: "(js_string \<times> js_string) list"

text \<open>
  The lines shared by the chat clients and the modal:
  \<^verbatim>\<open>if (!response.ok) {
      const errData = await response.json().catch(() => ({}));
      throw new Error(errData.detail || `Server error: ${response.status}`);
  }
  const data = await response.json();\<close>
  \<open>failure_text\<close> is the message of the error that reaches the \<open>catch\<close> clause for a
  failure status: the fallback when \<open>json()\<close> rejects (the body then reads as \<open>{}\<close>) or
  the detail is absent or falsy, the message of the \<open>TypeError\<close> when the body is \<open>null\<close>,
  and the message made from the detail otherwise. \<open>read_body\<close> gives the value that reaches
  the \<open>catch\<close> clause (\<open>Inl\<close>) or \<open>data\<close> (\<open>Inr\<close>, \<open>None\<close> for \<open>null\<close>).
\<close>

definition server_error :: "nat \<Rightarrow> js_string" where
  "server_error st = lit ''Server error: '' @ digits st"

definition failure_text :: "'a response \<Rightarrow> js_string" where
  "failure_text r =
     (case body r of
        BadJson _ \<Rightarrow> server_error (status r)
      | JsonNull m \<Rightarrow> m
      | JsonObj d _ \<Rightarrow>
          (case d of
             Some v \<Rightarrow> if js_truthy v then error_text_of v else server_error (status r)
           | None \<Rightarrow> server_error (status r)))"

definition read_body :: "'a fetch_result \<Rightarrow> thrown + 'a option" where
  "read_body res =
     (case res of
        Rejected e \<Rightarrow> Inl e
      | Responded r \<Rightarrow>
          if \<not> response_ok r then Inl (ErrorObj (failure_text r))
          else
            (case body r of
               BadJson e \<Rightarrow> Inl e
             | JsonNull _ \<Rightarrow> Inr None
             | JsonObj _ data \<Rightarrow> Inr (Some data)))"

text \<open>
  The chat clients go on to read \<open>data.reply\<close> before they change any state; on \<open>null\<close>
  that read raises the \<open>TypeError\<close>, inside the same \<open>try\<close>.
\<close>

definition read_response :: "'a fetch_result \<Rightarrow> thrown + 'a" where
  "read_response res =
     (case res of
        Rejected e \<Rightarrow> Inl e
      | Responded r \<Rightarrow>
          if \<not> response_ok r then Inl (ErrorObj (failure_text r))
          else
            (case body r of
               BadJson e \<Rightarrow> Inl e
             | JsonNull m \<Rightarrow> Inl (ErrorObj m)
             | JsonObj _ data \<Rightarrow> Inr data))"

text \<open>\<open>err instanceof Error ? err.message : fallback\<close>\<close>

fun error_message :: "js_string \<Rightarrow> thrown \<Rightarrow> js_string" where
  "error_message fallback (ErrorObj m) = m"
| "error_message fallback NonError = fallback"

definition backend_down :: "js_string \<Rightarrow> bool" where
  "backend_down message \<longleftrightarrow>
     includes_str message (lit ''Failed to fetch'') \<or> includes_str message (lit ''ECONNREFUSED'')"

section \<open>The chat clients\<close>

datatype MessageRole = User | Bot

record Message =
  msg_id :: js_string
  role :: MessageRole
  content :: js_string
  timestamp :: nat
  category :: "js_string option"

record StoredChat =
  chat_id :: js_string
  title :: js_string
  chat_messages :: "Message list"
  createdAt :: js_string

record chat_payload =
  reply :: js_string
  reply_category :: "js_string option"

text \<open>
  The canned bot message shown when the backend cannot be reached. The code units above
  ASCII are the warning sign with its variation selector, and the surrogate pairs of the
  telephone and globe signs.
\<close>

definition backend_not_connected :: js_string where
  "backend_not_connected =
     [0x26A0, 0xFE0F] @ lit '' *Backend not connected*'' @ [0x0A, 0x0A] @
     lit ''To see NyayMitra in action:'' @ [0x0A, 0x0A] @
     lit ''1. Start the backend: `cd backend && uvicorn app.main:app --reload`'' @ [0x0A] @
     lit ''2. Refresh this page'' @ [0x0A, 0x0A] @
     [0xD83D, 0xDCDE] @ lit '' For urgent legal help: **NALSA Toll-Free: 15100**'' @ [0x0A] @
     [0xD83C, 0xDF10] @ lit '' Karnataka Legal Aid: **080-2235-0202**''"

definition chat_request :: "js_string \<Rightarrow> js_string \<Rightarrow> js_string \<Rightarrow> http_request" where
  "chat_request message loc session =
     \<lparr>url = lit ''/api/chat'', http_method = lit ''POST'',
      headers = [(lit ''Content-Type'', lit ''application/json'')],
      json_fields = [(lit ''message'', message), (lit ''location'', loc),
                     (lit ''session_id'', session)]\<rparr>"

subsection \<open>The application shell with stored chat history\<close>

text \<open>
  The component's state hooks, its session ref, and the chats kept under the key
  \<open>nyaymitra_chats\<close> of the browser's local storage.
\<close>

record app_state =
  messages :: "Message list"
  isLoading :: bool
  error :: "js_string option"
  activeCategory :: "js_string option"
  chatHistory :: "StoredChat list"
  activeChatId :: "js_string option"
  sidebarOpen :: bool
  sessionId :: js_string
  localStorage :: "StoredChat list"

text \<open>
  The readings of the clock and of the random source that one call consumes, in the order
  the code takes them.
\<close>

record clock =
  user_id_now :: nat
  user_ts :: nat
  bot_id_now :: nat
  bot_ts :: nat
  gen_id_now :: nat
  gen_id_rand :: js_string
  created_iso :: js_string

definition location :: js_string where
  "location = lit ''Bengaluru, Karnataka''"

definition generateId :: "clock \<Rightarrow> js_string" where
  "generateId clk = lit ''chat_'' @ digits (gen_id_now clk) @ lit ''_'' @ gen_id_rand clk"

definition chat_title :: "Message list \<Rightarrow> js_string" where
  "chat_title msgs =
     (case find_first (\<lambda>m. role m = User) msgs of
        Some firstUserMsg \<Rightarrow>
          take 50 (content firstUserMsg) @
          (if length (content firstUserMsg) > 50 then lit ''...'' else [])
      | None \<Rightarrow> lit ''New Chat'')"

text \<open>\<open>activeChatId || generateId()\<close>\<close>

definition chatId_or_new :: "clock \<Rightarrow> js_string option \<Rightarrow> js_string" where
  "chatId_or_new clk active =
     (case active of
        Some a \<Rightarrow> if a \<noteq> [] then a else generateId clk
      | None \<Rightarrow> generateId clk)"

definition saveCurrentChat :: "clock \<Rightarrow> app_state \<Rightarrow> Message list \<Rightarrow> app_state" where
  "saveCurrentChat clk st msgs =
     (if length msgs = 0 then st
      else
        let chatId = chatId_or_new clk (activeChatId st);
            prev = chatHistory st;
            existing = findIndex (\<lambda>c. chat_id c = chatId) prev;
            updated = \<lparr>chat_id = chatId, title = chat_title msgs, chat_messages = msgs,
                       createdAt = (if existing \<ge> 0 then createdAt (prev ! nat existing)
                                    else created_iso clk)\<rparr>;
            newHistory = (if existing \<ge> 0 then prev[nat existing := updated]
                          else updated # prev);
            st' = st\<lparr>chatHistory := newHistory, localStorage := newHistory\<rparr>
        in if \<not> truthy (activeChatId st) then st'\<lparr>activeChatId := Some chatId\<rparr> else st')"

text \<open>
  \<open>sendMessage\<close>, in two parts: what runs up to the \<open>await\<close> of \<open>fetch\<close>, and what runs
  once the fetch has settled (\<open>try\<close> body, \<open>catch\<close>, \<open>finally\<close>). The second part uses the
  message list \<open>newMessages\<close> built by the first. The result is the new state and the
  requests issued.
\<close>

definition sendMessage_settle ::
  "clock \<Rightarrow> Message list \<Rightarrow> app_state \<Rightarrow> chat_payload fetch_result \<Rightarrow> app_state" where
  "sendMessage_settle clk newMessages st res =
     (let st' =
        (case read_response res of
           Inr data \<Rightarrow>
             let botMsg = \<lparr>msg_id = digits (bot_id_now clk) @ lit ''_bot'', role = Bot,
                           content = reply data, timestamp = bot_ts clk,
                           category = reply_category data\<rparr>;
                 st1 = (if truthy (reply_category data)
                        then st\<lparr>activeCategory := reply_category data\<rparr> else st);
                 withBot = newMessages @ [botMsg]
             in saveCurrentChat clk (st1\<lparr>messages := withBot\<rparr>) withBot
         | Inl err \<Rightarrow>
             let message = error_message (lit ''Failed to get response'') err in
             if backend_down message then
               let botMsg = \<lparr>msg_id = digits (bot_id_now clk) @ lit ''_bot'', role = Bot,
                             content = backend_not_connected, timestamp = bot_ts clk,
                             category = None\<rparr>;
                   withBot = newMessages @ [botMsg]
               in saveCurrentChat clk (st\<lparr>messages := withBot\<rparr>) withBot
             else st\<lparr>error := Some (lit ''Error: '' @ message @ lit ''. Please try again.'')\<rparr>)
      in st'\<lparr>isLoading := False\<rparr>)"

definition sendMessage ::
  "clock \<Rightarrow> app_state \<Rightarrow> js_string \<Rightarrow> chat_payload fetch_result
     \<Rightarrow> app_state \<times> http_request list" where
  "sendMessage clk st input res =
     (let trimmed = trim input in
      if trimmed = [] \<or> isLoading st then (st, [])
      else
        let st1 = st\<lparr>error := None\<rparr>;
            st2 = (if length (messages st) = 0 then st1\<lparr>sidebarOpen := True\<rparr> else st1);
            userMsg = \<lparr>msg_id = digits (user_id_now clk) @ lit ''_user'', role = User,
                       content = trimmed, timestamp = user_ts clk, category = None\<rparr>;
            newMessages = messages st @ [userMsg];
            st3 = st2\<lparr>messages := newMessages, isLoading := True\<rparr>
        in (sendMessage_settle clk newMessages st3 res,
            [chat_request trimmed location (sessionId st)]))"

subsection \<open>The plain chat interface\<close>

text \<open>
  This component's messages also record the location; it has no stored history. Each
  \<open>addMessage\<close> reads the clock and the random source for the id and the clock again for
  the timestamp.
\<close>

record Message_ci = Message +
  msg_location :: "js_string option"

record ci_state =
  messages_ci :: "Message_ci list"
  inputValue :: js_string
  location_ci :: js_string
  isLoading_ci :: bool
  error_ci :: "js_string option"
  activeCategory_ci :: "js_string option"
  sessionId_ci :: js_string

record stamp =
  id_now :: nat
  id_rand :: js_string
  ts :: nat

definition addMessage ::
  "stamp \<Rightarrow> ci_state \<Rightarrow> MessageRole \<Rightarrow> js_string \<Rightarrow> js_string option \<Rightarrow> ci_state" where
  "addMessage sp st r c cat =
     (let msg = \<lparr>msg_id = digits (id_now sp) @ lit ''_'' @ id_rand sp, role = r, content = c,
                  timestamp = ts sp, category = cat, msg_location = Some (location_ci st)\<rparr>
      in st\<lparr>messages_ci := messages_ci st @ [msg]\<rparr>)"

definition sendMessage_ci_settle ::
  "stamp \<Rightarrow> ci_state \<Rightarrow> chat_payload fetch_result \<Rightarrow> ci_state" where
  "sendMessage_ci_settle bot_stamp st res =
     (let st' =
        (case read_response res of
           Inr data \<Rightarrow>
             let st1 = addMessage bot_stamp st Bot (reply data) (reply_category data)
             in if truthy (reply_category data)
                then st1\<lparr>activeCategory_ci := reply_category data\<rparr> else st1
         | Inl err \<Rightarrow>
             let message = error_message (lit ''Failed to get response'') err in
             if backend_down message
             then addMessage bot_stamp st Bot backend_not_connected None
             else st\<lparr>error_ci := Some (lit ''Error: '' @ message @ lit ''. Please try again.'')\<rparr>)
      in st'\<lparr>isLoading_ci := False\<rparr>)"

definition sendMessage_ci ::
  "stamp \<Rightarrow> stamp \<Rightarrow> ci_state \<Rightarrow> js_string \<Rightarrow> chat_payload fetch_result
     \<Rightarrow> ci_state \<times> http_request list" where
  "sendMessage_ci user_stamp bot_stamp st input res =
     (let trimmed = trim input in
      if trimmed = [] \<or> isLoading_ci st then (st, [])
      else
        let st1 = st\<lparr>error_ci := None, inputValue := []\<rparr>;
            st2 = addMessage user_stamp st1 User trimmed None;
            st3 = st2\<lparr>isLoading_ci := True\<rparr>
        in (sendMessage_ci_settle bot_stamp st3 res,
            [chat_request trimmed (location_ci st) (sessionId_ci st)]))"

section \<open>The rights-card wizard\<close>

record RightsCardData =
  card_title :: js_string
  card_situation :: js_string
  situation_summary :: js_string
  card_icon :: js_string
  card_language :: js_string
  your_rights :: "js_string list"
  they_cannot :: "js_string list"
  do_next :: "js_string list"
  emergency_contacts :: "js_string list"
  relevant_laws :: "js_string list"
  is_mock :: "bool option"

record SituationOption =
  sit_id :: js_string
  sit_label :: js_string
  sit_icon :: js_string
  sit_description :: js_string
  sit_color :: js_string

record LanguageOption =
  lang_id :: js_string
  lang_label :: js_string
  lang_native :: js_string

definition SITUATIONS :: "SituationOption list" where
  "SITUATIONS =
     [\<lparr>sit_id = lit ''arrested'', sit_label = lit ''Arrested / Detained'',
       sit_icon = [0xD83D, 0xDE94], sit_description = lit ''Police arrested or detained you'',
       sit_color = lit ''#EF4444''\<rparr>,
      \<lparr>sit_id = lit ''evicted'', sit_label = lit ''Being Evicted'',
       sit_icon = [0xD83C, 0xDFE0], sit_description = lit ''Landlord is forcing you out'',
       sit_color = lit ''#F59E0B''\<rparr>,
      \<lparr>sit_id = lit ''fired'', sit_label = lit ''Fired from Job'',
       sit_icon = [0xD83D, 0xDCBC], sit_description = lit ''Wrongfully terminated by employer'',
       sit_color = lit ''#8B5CF6''\<rparr>,
      \<lparr>sit_id = lit ''cheated'', sit_label = lit ''Cheated by Vendor'',
       sit_icon = [0xD83D, 0xDED2], sit_description = lit ''Consumer fraud or scam victim'',
       sit_color = lit ''#10B981''\<rparr>]"

definition LANGUAGES :: "LanguageOption list" where
  "LANGUAGES =
     [\<lparr>lang_id = lit ''English'', lang_label = lit ''English'', lang_native = lit ''English''\<rparr>,
      \<lparr>lang_id = lit ''Hindi'', lang_label = lit ''Hindi'',
       lang_native = [0x939, 0x93F, 0x928, 0x94D, 0x926, 0x940]\<rparr>,
      \<lparr>lang_id = lit ''Kannada'', lang_label = lit ''Kannada'',
       lang_native = [0xC95, 0xCA8, 0xCCD, 0xCA8, 0xCA1]\<rparr>]"

datatype step = Select | Configure | Result

record rc_state =
  step :: step
  selectedSituation :: "js_string option"
  selectedLanguage :: js_string
  isGenerating :: bool
  cardData :: "RightsCardData option"
  rc_error :: "js_string option"

definition rc_initial :: rc_state where
  "rc_initial = \<lparr>step = Select, selectedSituation = None, selectedLanguage = lit ''English'',
                  isGenerating = False, cardData = None, rc_error = None\<rparr>"

definition handleSituationSelect :: "rc_state \<Rightarrow> js_string \<Rightarrow> rc_state" where
  "handleSituationSelect st situationId =
     st\<lparr>selectedSituation := Some situationId, step := Configure\<rparr>"

definition rights_card_request :: "js_string \<Rightarrow> js_string \<Rightarrow> js_string \<Rightarrow> http_request" where
  "rights_card_request sit lang loc =
     \<lparr>url = lit ''/api/rights-card'', http_method = lit ''POST'',
      headers = [(lit ''Content-Type'', lit ''application/json'')],
      json_fields = [(lit ''situation'', sit), (lit ''language'', lang),
                     (lit ''location'', loc)]\<rparr>"

text \<open>
  \<open>handleGenerate\<close>; \<open>loc\<close> is the component's \<open>location\<close> prop. \<open>handleGenerate_begin\<close> is
  what runs up to the \<open>await\<close> of \<open>fetch\<close> (\<open>None\<close> when the function returns at once),
  \<open>handleGenerate_settle\<close> what runs once the fetch has settled; it uses state setters with
  fixed values only, so it applies to whatever state the component is in by then.
\<close>

definition handleGenerate_begin :: "js_string \<Rightarrow> rc_state \<Rightarrow> (rc_state \<times> http_request) option" where
  "handleGenerate_begin loc st =
     (case selectedSituation st of
        None \<Rightarrow> None
      | Some sit \<Rightarrow>
          if sit = [] then None
          else Some (st\<lparr>isGenerating := True, rc_error := None\<rparr>,
                     rights_card_request sit (selectedLanguage st) loc))"

definition handleGenerate_settle :: "rc_state \<Rightarrow> RightsCardData fetch_result \<Rightarrow> rc_state" where
  "handleGenerate_settle st res =
     (let st' =
        (case read_body res of
           Inr data \<Rightarrow> st\<lparr>cardData := data, step := Result\<rparr>
         | Inl err \<Rightarrow>
             let message = error_message (lit ''Failed to generate card'') err in
             if backend_down message
             then st\<lparr>rc_error :=
                       Some (lit ''Backend not connected. Please start the backend server.'')\<rparr>
             else st\<lparr>rc_error := Some message\<rparr>)
      in st'\<lparr>isGenerating := False\<rparr>)"

definition handleGenerate ::
  "js_string \<Rightarrow> rc_state \<Rightarrow> RightsCardData fetch_result \<Rightarrow> rc_state \<times> http_request list" where
  "handleGenerate loc st res =
     (case handleGenerate_begin loc st of
        None \<Rightarrow> (st, [])
      | Some (st1, req) \<Rightarrow> (handleGenerate_settle st1 res, [req]))"

text \<open>
  \<open>handleDownload\<close> touches the state only when the export throws; the flag says whether
  it did.
\<close>

definition handleDownload :: "rc_state \<Rightarrow> bool \<Rightarrow> rc_state" where
  "handleDownload st failed =
     (if failed then st\<lparr>rc_error := Some (lit ''Failed to download. Please try again.'')\<rparr>
      else st)"

definition handleBack :: "rc_state \<Rightarrow> rc_state" where
  "handleBack st =
     (if step st = Result then st\<lparr>step := Configure, cardData := None\<rparr>
      else if step st = Configure then st\<lparr>step := Select, selectedSituation := None\<rparr>
      else st)"

definition handleReset :: "rc_state \<Rightarrow> rc_state" where
  "handleReset st =
     st\<lparr>step := Select, selectedSituation := None, selectedLanguage := lit ''English'',
        cardData := None, rc_error := None\<rparr>"

text \<open>
  The controls of the modal and the conditions under which the component renders them
  (a disabled button does not fire).
\<close>

datatype rc_control =
    SituationClicked SituationOption
  | LanguageClicked LanguageOption
  | GenerateClicked
  | BackClicked
  | DownloadClicked bool
  | ResetClicked

fun rendered :: "rc_state \<Rightarrow> rc_control \<Rightarrow> bool" where
  "rendered st (SituationClicked sit) = (step st = Select \<and> sit \<in> set SITUATIONS)"
| "rendered st (LanguageClicked lang) = (step st = Configure \<and> lang \<in> set LANGUAGES)"
| "rendered st GenerateClicked = (step st = Configure \<and> \<not> isGenerating st)"
| "rendered st BackClicked = (step st \<noteq> Select)"
| "rendered st (DownloadClicked failed) = (step st = Result \<and> cardData st \<noteq> None)"
| "rendered st ResetClicked = (step st = Result \<and> cardData st \<noteq> None)"

text \<open>
  A run of the modal: the component state, the number of fetches still pending, and the
  requests issued so far. Its events are the uses of a control and the moments a pending
  fetch settles; between a click on the generate button and that moment the other controls
  stay usable.
\<close>

record rc_run_state =
  component :: rc_state
  pending :: nat
  issued :: "http_request list"

datatype rc_event = Control rc_control | FetchSettled "RightsCardData fetch_result"

fun rc_handle :: "js_string \<Rightarrow> rc_run_state \<Rightarrow> rc_control \<Rightarrow> rc_run_state" where
  "rc_handle loc run (SituationClicked sit) =
     run\<lparr>component := handleSituationSelect (component run) (sit_id sit)\<rparr>"
| "rc_handle loc run (LanguageClicked lang) =
     run\<lparr>component := (component run)\<lparr>selectedLanguage := lang_id lang\<rparr>\<rparr>"
| "rc_handle loc run GenerateClicked =
     (case handleGenerate_begin loc (component run) of
        None \<Rightarrow> run
      | Some (st1, req) \<Rightarrow>
          run\<lparr>component := st1, pending := pending run + 1, issued := issued run @ [req]\<rparr>)"
| "rc_handle loc run BackClicked = run\<lparr>component := handleBack (component run)\<rparr>"
| "rc_handle loc run (DownloadClicked failed) =
     run\<lparr>component := handleDownload (component run) failed\<rparr>"
| "rc_handle loc run ResetClicked = run\<lparr>component := handleReset (component run)\<rparr>"

fun rc_fire :: "js_string \<Rightarrow> rc_run_state \<Rightarrow> rc_event \<Rightarrow> rc_run_state" where
  "rc_fire loc run (Control c) =
     (if rendered (component run) c then rc_handle loc run c else run)"
| "rc_fire loc run (FetchSettled res) =
     (if pending run > 0
      then run\<lparr>component := handleGenerate_settle (component run) res,
               pending := pending run - 1\<rparr>
      else run)"

definition rc_run :: "js_string \<Rightarrow> rc_event list \<Rightarrow> rc_run_state" where
  "rc_run loc evs =
     foldl (rc_fire loc) \<lparr>component = rc_initial, pending = 0, issued = []\<rparr> evs"

subsection \<open>The standalone rights-card page\<close>

record RightsCard =
  page_title :: js_string
  entitlements :: "js_string list"
  can_do :: "js_string list"
  cannot_do :: "js_string list"
  next_steps :: "js_string list"

definition PAGE_SITUATIONS :: "js_string list" where
  "PAGE_SITUATIONS =
     [lit ''Arrested by Police'', lit ''Evicted without notice'', lit ''Fired unlawfully'',
      lit ''Cheated by a vendor'', lit ''Domestic violence'', lit ''Online fraud/scam'']"

definition PAGE_LANGUAGES :: "js_string list" where
  "PAGE_LANGUAGES =
     [lit ''English'', lit ''Hindi'', lit ''Kannada'', lit ''Tamil'', lit ''Telugu'',
      lit ''Marathi'']"

record page_state =
  situation :: js_string
  language :: js_string
  loading :: bool
  page_cardData :: "RightsCard option"
  page_error :: js_string

definition page_initial :: page_state where
  "page_initial = \<lparr>situation = lit ''Arrested by Police'', language = lit ''English'',
                    loading = False, page_cardData = None, page_error = []\<rparr>"

text \<open>
  The page's \<open>handleGenerate\<close>; \<open>env_url\<close> is \<open>process.env.NEXT_PUBLIC_API_URL\<close>. A failure
  status throws before the body is read.
\<close>

definition page_handleGenerate ::
  "js_string option \<Rightarrow> page_state \<Rightarrow> RightsCard fetch_result
     \<Rightarrow> page_state \<times> http_request list" where
  "page_handleGenerate env_url st res =
     (let st1 = st\<lparr>loading := True, page_error := [], page_cardData := None\<rparr>;
          API_BASE_URL = (case env_url of
                            Some u \<Rightarrow> if u \<noteq> [] then u else lit ''http://localhost:8000''
                          | None \<Rightarrow> lit ''http://localhost:8000'');
          req = \<lparr>url = API_BASE_URL @ lit ''/api/rights-card'', http_method = lit ''POST'',
                 headers = [(lit ''Content-Type'', lit ''application/json'')],
                 json_fields = [(lit ''situation'', situation st),
                                (lit ''language'', language st)]\<rparr>;
          outcome = (case res of
                       Rejected e \<Rightarrow> Inl e
                     | Responded r \<Rightarrow>
                         if \<not> response_ok r then Inl (ErrorObj (lit ''Failed to generate card''))
                         else (case body r of
                                 BadJson e \<Rightarrow> Inl e
                               | JsonNull _ \<Rightarrow> Inr None
                               | JsonObj _ data \<Rightarrow> Inr (Some data)));
          st2 = (case outcome of
                   Inr data \<Rightarrow> st1\<lparr>page_cardData := data\<rparr>
                 | Inl (ErrorObj m) \<Rightarrow>
                     st1\<lparr>page_error := (if m \<noteq> [] then m else lit ''An error occurred'')\<rparr>
                 | Inl NonError \<Rightarrow> st1\<lparr>page_error := lit ''An error occurred''\<rparr>)
      in (st2\<lparr>loading := False\<rparr>, [req]))"

subsection \<open>The declared shapes of a rights card\<close>

text \<open>
  The two interface declarations, \<open>RightsCardData\<close> of the modal and \<open>RightsCard\<close> of the
  standalone page, as data: the name of each field, its type, and whether it is optional.
\<close>

datatype ts_type = TString | TStringArray | TBoolean

record ts_field =
  field_name :: string
  field_type :: ts_type
  optional :: bool

definition RightsCardData_interface :: "ts_field list" where
  "RightsCardData_interface =
     [\<lparr>field_name = ''title'', field_type = TString, optional = False\<rparr>,
      \<lparr>field_name = ''situation'', field_type = TString, optional = False\<rparr>,
      \<lparr>field_name = ''situation_summary'', field_type = TString, optional = False\<rparr>,
      \<lparr>field_name = ''icon'', field_type = TString, optional = False\<rparr>,
      \<lparr>field_name = ''language'', field_type = TString, optional = False\<rparr>,
      \<lparr>field_name = ''your_rights'', field_type = TStringArray, optional = False\<rparr>,
      \<lparr>field_name = ''they_cannot'', field_type = TStringArray, optional = False\<rparr>,
      \<lparr>field_name = ''do_next'', field_type = TStringArray, optional = False\<rparr>,
      \<lparr>field_name = ''emergency_contacts'', field_type = TStringArray, optional = False\<rparr>,
      \<lparr>field_name = ''relevant_laws'', field_type = TStringArray, optional = False\<rparr>,
      \<lparr>field_name = ''is_mock'', field_type = TBoolean, optional = True\<rparr>]"

definition RightsCard_interface :: "ts_field list" where
  "RightsCard_interface =
     [\<lparr>field_name = ''title'', field_type = TString, optional = False\<rparr>,
      \<lparr>field_name = ''entitlements'', field_type = TStringArray, optional = False\<rparr>,
      \<lparr>field_name = ''can_do'', field_type = TStringArray, optional = False\<rparr>,
      \<lparr>field_name = ''cannot_do'', field_type = TStringArray, optional = False\<rparr>,
      \<lparr>field_name = ''next_steps'', field_type = TStringArray, optional = False\<rparr>]"

section \<open>The sidebar's grouping of chats by date\<close>

text \<open>
  A \<open>Date\<close> is a time value in milliseconds, or invalid (time value \<open>NaN\<close>). Comparing two
  dates with \<open>>=\<close> compares the time values, and is false when either is \<open>NaN\<close>.
\<close>

datatype js_date = InvalidDate | TimeValue int

fun date_ge :: "js_date \<Rightarrow> js_date \<Rightarrow> bool" where
  "date_ge (TimeValue a) (TimeValue b) = (a \<ge> b)"
| "date_ge _ _ = False"

record ChatSession =
  cs_id :: js_string
  cs_title :: js_string
  cs_createdAt :: js_date
  preview :: js_string

record date_group =
  label :: js_string
  chats :: "ChatSession list"

text \<open>
  The local-calendar arithmetic of the runtime: \<open>local_midnight\<close> is
  \<open>new Date(d.getFullYear(), d.getMonth(), d.getDate())\<close>, and \<open>days_before d k\<close> is \<open>d\<close>
  after \<open>d.setDate(d.getDate() - k)\<close>.
\<close>

record calendar =
  local_midnight :: "js_date \<Rightarrow> js_date"
  days_before :: "js_date \<Rightarrow> nat \<Rightarrow> js_date"

definition push_chat :: "nat \<Rightarrow> ChatSession \<Rightarrow> date_group list \<Rightarrow> date_group list" where
  "push_chat i chat groups = groups[i := (groups ! i)\<lparr>chats := chats (groups ! i) @ [chat]\<rparr>]"

definition place_chat ::
  "js_date \<Rightarrow> js_date \<Rightarrow> js_date \<Rightarrow> date_group list \<Rightarrow> ChatSession \<Rightarrow> date_group list" where
  "place_chat today yesterday weekAgo groups chat =
     (let d = cs_createdAt chat in
      if date_ge d today then push_chat 0 chat groups
      else if date_ge d yesterday then push_chat 1 chat groups
      else if date_ge d weekAgo then push_chat 2 chat groups
      else push_chat 3 chat groups)"

definition groupByDate :: "calendar \<Rightarrow> js_date \<Rightarrow> ChatSession list \<Rightarrow> date_group list" where
  "groupByDate cal now chat_list =
     (let today = local_midnight cal now;
          yesterday = days_before cal today 1;
          weekAgo = days_before cal today 7;
          groups = [\<lparr>label = lit ''Today'', chats = []\<rparr>,
                    \<lparr>label = lit ''Yesterday'', chats = []\<rparr>,
                    \<lparr>label = lit ''Previous 7 Days'', chats = []\<rparr>,
                    \<lparr>label = lit ''Older'', chats = []\<rparr>];
          filled = foldl (place_chat today yesterday weekAgo) groups chat_list
      in filter (\<lambda>g. length (chats g) > 0) filled)"

section \<open>The server endpoints behind the clients\<close>

text \<open>
  Modelled from the spec: the handlers of \<open>POST /api/chat\<close> and \<open>POST /api/rights-card\<close> and
  the services they call (prompt construction, hosted-model call, canned responses) are
  server code of this repository that is not among the sources. The model follows the
  specification: the hosted model is called only when credentials are configured; an absent
  credential or a failed call yields the fixed mock content, flagged as mock; the rights-card
  endpoint validates the situation and the language against the supported sets and answers
  a failure status with a detail string otherwise. The supported sets, the prompt builders
  and the canned contents are parameters.
\<close>

text \<open>Modelled from the spec: a call to the hosted model fails or returns its output.\<close>

datatype 'a model_outcome = ModelFailed | ModelReturned 'a

text \<open>
  Modelled from the spec: the answer of the chat endpoint, \<open>{reply, category?}\<close>, with the
  flag that marks mock content.
\<close>

record chat_reply =
  srv_reply :: js_string
  srv_category :: "js_string option"
  srv_is_mock :: bool

text \<open>
  Modelled from the spec: the configuration and the static parts of the server. The
  credentials may be absent; \<open>'p\<close> is the type of prompts and \<open>'c\<close> the type of cards.
\<close>

record ('p, 'c) server =
  credentials :: "js_string option"
  hosted_text :: "'p \<Rightarrow> js_string model_outcome"
  hosted_card :: "'p \<Rightarrow> 'c model_outcome"
  chat_prompt :: "js_string \<Rightarrow> js_string \<Rightarrow> 'p"
  card_prompt :: "js_string \<Rightarrow> js_string \<Rightarrow> js_string \<Rightarrow> 'p"
  detect_category :: "js_string \<Rightarrow> js_string option"
  mock_reply :: js_string
  mock_card :: "js_string \<Rightarrow> js_string \<Rightarrow> 'c"
  supported_situations :: "js_string list"
  supported_languages :: "js_string list"

text \<open>
  Modelled from the spec: the mock-or-live choice of sections 4.4 and 4.5. The result is the
  content and its mock flag.
\<close>

definition generate :: "js_string option \<Rightarrow> ('p \<Rightarrow> 'a model_outcome) \<Rightarrow> 'p \<Rightarrow> 'a \<Rightarrow> 'a \<times> bool" where
  "generate creds hosted prompt canned =
     (case creds of
        None \<Rightarrow> (canned, True)
      | Some _ \<Rightarrow>
          (case hosted prompt of
             ModelFailed \<Rightarrow> (canned, True)
           | ModelReturned x \<Rightarrow> (x, False)))"

text \<open>Modelled from the spec: \<open>POST /api/chat\<close>, status and body.\<close>

definition api_chat :: "('p, 'c) server \<Rightarrow> js_string \<Rightarrow> js_string \<Rightarrow> js_string
    \<Rightarrow> nat \<times> chat_reply" where
  "api_chat srv message loc session =
     (let (txt, mock) = generate (credentials srv) (hosted_text srv)
                          (chat_prompt srv message loc) (mock_reply srv)
      in (200, \<lparr>srv_reply = txt, srv_category = detect_category srv message,
                srv_is_mock = mock\<rparr>))"

text \<open>
  Modelled from the spec: \<open>POST /api/rights-card\<close>, status and body (\<open>Inl\<close> the detail of a
  validation failure, answered with a 4xx status).
\<close>

definition api_rights_card :: "('p, 'c) server \<Rightarrow> js_string \<Rightarrow> js_string \<Rightarrow> js_string
    \<Rightarrow> nat \<times> (js_string + 'c \<times> bool)" where
  "api_rights_card srv sit lang loc =
     (if sit \<notin> set (supported_situations srv) then (400, Inl (lit ''Invalid situation''))
      else if lang \<notin> set (supported_languages srv) then (400, Inl (lit ''Invalid language''))
      else (200, Inr (generate (credentials srv) (hosted_card srv)
                        (card_prompt srv sit lang loc) (mock_card srv sit lang))))"

section \<open>Auxiliary notions used in the statements\<close>

text \<open>The code units of the decimal digits.\<close>

definition digit_units :: "16 word set" where
  "digit_units = {48, 49, 50, 51, 52, 53, 54, 55, 56, 57}"

text \<open>
  A request carries a conversation history when the content of every message of the history
  occurs in one of the fields of its body.
\<close>

definition carries_history :: "http_request \<Rightarrow> Message list \<Rightarrow> bool" where
  "carries_history req history \<longleftrightarrow>
     (\<forall>m \<in> set history. \<exists>f \<in> set (json_fields req). includes_str (snd f) (content m))"

text \<open>
  The label of the group a chat belongs to, by the comparisons of its creation date with
  the start of today, of yesterday and of the day a week ago; the position of that group;
  and the labels of the four groups in the order the sidebar declares them.
\<close>

definition day_label :: "calendar \<Rightarrow> js_date \<Rightarrow> ChatSession \<Rightarrow> js_string" where
  "day_label cal now chat =
     (let today = local_midnight cal now;
          d = cs_createdAt chat in
      if date_ge d today then lit ''Today''
      else if date_ge d (days_before cal today 1) then lit ''Yesterday''
      else if date_ge d (days_before cal today 7) then lit ''Previous 7 Days''
      else lit ''Older'')"

definition bucket :: "js_date \<Rightarrow> js_date \<Rightarrow> js_date \<Rightarrow> ChatSession \<Rightarrow> nat" where
  "bucket today yesterday weekAgo chat =
     (if date_ge (cs_createdAt chat) today then 0
      else if date_ge (cs_createdAt chat) yesterday then 1
      else if date_ge (cs_createdAt chat) weekAgo then 2
      else 3)"

definition group_labels :: "js_string list" where
  "group_labels = [lit ''Today'', lit ''Yesterday'', lit ''Previous 7 Days'', lit ''Older'']"

text \<open>
  A request of the modal is well formed when its body has exactly the fields \<open>situation\<close>,
  \<open>language\<close> and \<open>location\<close>, the first two taken from the situations and languages the
  modal offers. \<open>rc_inv\<close> is the invariant of a run that keeps the requests well formed.
\<close>

definition good_request :: "js_string \<Rightarrow> http_request \<Rightarrow> bool" where
  "good_request loc req \<longleftrightarrow>
     (\<exists>sit \<in> set SITUATIONS. \<exists>lang \<in> set LANGUAGES.
        json_fields req = [(lit ''situation'', sit_id sit), (lit ''language'', lang_id lang),
                           (lit ''location'', loc)])"

definition rc_inv :: "js_string \<Rightarrow> rc_run_state \<Rightarrow> bool" where
  "rc_inv loc run \<longleftrightarrow>
     (selectedSituation (component run) = None \<or>
      selectedSituation (component run) \<in> Some ` sit_id ` set SITUATIONS) \<and>
     selectedLanguage (component run) \<in> lang_id ` set LANGUAGES \<and>
     (\<forall>req \<in> set (issued run). good_request loc req)"

text \<open>
  The parts of the RightsCard record as the specification lists them: title, situation tag,
  summary, ordered lists of rights, prohibitions and action steps, lists of emergency
  contacts and cited laws, language tag and mock flag. \<open>part_type\<close> is the type the
  specification gives a part, \<open>part_of_field\<close> the part that a field of either declared
  interface holds, by its name. An interface has the specified shape when it has as many
  fields as there are parts, and every part is held by exactly one field, of the type of
  the part.
\<close>

datatype card_part =
    Title | SituationTag | Summary | Rights | Prohibitions | ActionSteps
  | EmergencyContacts | CitedLaws | LanguageTag | MockFlag

definition card_parts :: "card_part list" where
  "card_parts = [Title, SituationTag, Summary, Rights, Prohibitions, ActionSteps,
                 EmergencyContacts, CitedLaws, LanguageTag, MockFlag]"

fun part_type :: "card_part \<Rightarrow> ts_type" where
  "part_type Title = TString"
| "part_type SituationTag = TString"
| "part_type Summary = TString"
| "part_type LanguageTag = TString"
| "part_type MockFlag = TBoolean"
| "part_type _ = TStringArray"

definition part_of_field :: "string \<Rightarrow> card_part option" where
  "part_of_field name =
     map_of [(''title'', Title), (''situation'', SituationTag),
             (''situation_summary'', Summary), (''language'', LanguageTag),
             (''your_rights'', Rights), (''entitlements'', Rights),
             (''they_cannot'', Prohibitions), (''cannot_do'', Prohibitions),
             (''do_next'', ActionSteps), (''next_steps'', ActionSteps),
             (''emergency_contacts'', EmergencyContacts), (''relevant_laws'', CitedLaws),
             (''is_mock'', MockFlag)] name"

definition holds_part :: "card_part \<Rightarrow> ts_field \<Rightarrow> bool" where
  "holds_part p f \<longleftrightarrow> part_of_field (field_name f) = Some p \<and> field_type f = part_type p"

definition has_spec_shape :: "ts_field list \<Rightarrow> bool" where
  "has_spec_shape iface \<longleftrightarrow>
     length iface = length card_parts \<and>
     list_all (\<lambda>p. length (filter (holds_part p) iface) = 1) card_parts"

section \<open>Sample inputs\<close>

text \<open>Concrete states, clock readings and server answers at which the results are run.\<close>

definition clk0 :: clock where
  "clk0 = \<lparr>user_id_now = 1700000000000, user_ts = 1700000000000, bot_id_now = 1700000000950,
           bot_ts = 1700000000950, gen_id_now = 1700000000951, gen_id_rand = lit ''k3x9qa'',
           created_iso = lit ''2023-11-14T22:13:20.951Z''\<rparr>"

definition app0 :: app_state where
  "app0 = \<lparr>messages = [], isLoading = False, error = None, activeCategory = None,
           chatHistory = [], activeChatId = None, sidebarOpen = False,
           sessionId = lit ''session_1699999999000'', localStorage = []\<rparr>"

definition ci0 :: ci_state where
  "ci0 = \<lparr>messages_ci = [], inputValue = lit '' hello '', location_ci = lit ''Bengaluru, Karnataka'',
          isLoading_ci = False, error_ci = None, activeCategory_ci = None,
          sessionId_ci = lit ''session_1699999999000''\<rparr>"

definition stamp_u :: stamp where
  "stamp_u = \<lparr>id_now = 1700000000000, id_rand = lit ''0k3x9qa7'', ts = 1700000000000\<rparr>"

definition stamp_b :: stamp where
  "stamp_b = \<lparr>id_now = 1700000000950, id_rand = lit ''0p41zzc2'', ts = 1700000000950\<rparr>"

definition first_exchange :: "Message list" where
  "first_exchange =
     [\<lparr>msg_id = lit ''1699999999100_user'', role = User, content = lit ''first'',
       timestamp = 1699999999100, category = None\<rparr>,
      \<lparr>msg_id = lit ''1699999999800_bot'', role = Bot, content = lit ''answer'',
       timestamp = 1699999999800, category = Some (lit ''property'')\<rparr>]"

definition ok_reply :: "chat_payload fetch_result" where
  "ok_reply = Responded \<lparr>status = 200,
      body = JsonObj None \<lparr>reply = lit ''Section 21'', reply_category = Some (lit ''property'')\<rparr>\<rparr>"

definition bad_gateway :: "chat_payload fetch_result" where
  "bad_gateway = Responded \<lparr>status = 502,
      body = JsonObj (Some (JString (lit ''connect ECONNREFUSED 127.0.0.1:8000'')))
               \<lparr>reply = [], reply_category = None\<rparr>\<rparr>"

definition unavailable :: "chat_payload fetch_result" where
  "unavailable = Responded \<lparr>status = 503, body = BadJson (ErrorObj (lit ''Unexpected token''))\<rparr>"

definition null_read_message :: js_string where
  "null_read_message =
     lit ''Cannot read properties of null (reading '' @ [0x27] @ lit ''detail'' @ [0x27] @ lit '')''"

definition null_failure :: "chat_payload fetch_result" where
  "null_failure = Responded \<lparr>status = 500, body = JsonNull null_read_message\<rparr>"

definition validation_failure :: "chat_payload fetch_result" where
  "validation_failure = Responded \<lparr>status = 422,
      body = JsonObj (Some (JCompound (lit ''[object Object]'')))
               \<lparr>reply = [], reply_category = None\<rparr>\<rparr>"

definition stored_two :: "StoredChat list" where
  "stored_two =
     [\<lparr>chat_id = lit ''chat_1699990000000_a1b2c3'', title = lit ''Older chat'',
       chat_messages = [], createdAt = lit ''2023-11-14T19:26:40.000Z''\<rparr>,
      \<lparr>chat_id = lit ''chat_1699980000000_d4e5f6'', title = lit ''first'',
       chat_messages = [], createdAt = lit ''2023-11-14T16:40:00.000Z''\<rparr>]"

definition app_two :: app_state where
  "app_two = app0\<lparr>chatHistory := stored_two,
                   activeChatId := Some (lit ''chat_1699980000000_d4e5f6'')\<rparr>"

definition utc_calendar :: calendar where
  "utc_calendar =
     \<lparr>local_midnight = (\<lambda>d. case d of InvalidDate \<Rightarrow> InvalidDate
                               | TimeValue t \<Rightarrow> TimeValue (t - t mod 86400000)),
      days_before = (\<lambda>d k. case d of InvalidDate \<Rightarrow> InvalidDate
                              | TimeValue t \<Rightarrow> TimeValue (t - int k * 86400000))\<rparr>"

definition session_today :: ChatSession where
  "session_today = \<lparr>cs_id = lit ''chat_1699950000000_a1b2c3'', cs_title = lit ''Deposit'',
                     cs_createdAt = TimeValue 1699950000000, preview = lit ''Section 21''\<rparr>"

definition session_old :: ChatSession where
  "session_old = \<lparr>cs_id = lit ''chat_1690000000000_d4e5f6'', cs_title = lit ''Salary'',
                   cs_createdAt = TimeValue 1690000000000, preview = []\<rparr>"

definition session_undated :: ChatSession where
  "session_undated = \<lparr>cs_id = lit ''chat_x'', cs_title = lit ''FIR'',
                       cs_createdAt = InvalidDate, preview = []\<rparr>"

definition page_ok :: "RightsCard fetch_result" where
  "page_ok = Responded \<lparr>status = 200,
      body = JsonObj None \<lparr>page_title = lit ''Your rights'', entitlements = [], can_do = [],
                             cannot_do = [], next_steps = []\<rparr>\<rparr>"

definition sample_card :: RightsCardData where
  "sample_card = \<lparr>card_title = lit ''If you are arrested'', card_situation = lit ''arrested'',
      situation_summary = lit ''Police arrested or detained you'', card_icon = [0xD83D, 0xDE94],
      card_language = lit ''English'', your_rights = [lit ''To know the grounds of arrest''],
      they_cannot = [lit ''Detain you beyond 24 hours without a magistrate''],
      do_next = [lit ''Ask for a lawyer''], emergency_contacts = [lit ''NALSA 15100''],
      relevant_laws = [lit ''Article 22''], is_mock = Some True\<rparr>"

definition result_state :: rc_state where
  "result_state = \<lparr>step = Result, selectedSituation = Some (lit ''arrested''),
      selectedLanguage = lit ''Hindi'', isGenerating = False, cardData = Some sample_card,
      rc_error = None\<rparr>"

definition demo_server :: "(js_string, js_string list) server" where
  "demo_server =
     \<lparr>credentials = None,
      hosted_text = (\<lambda>p. ModelReturned p),
      hosted_card = (\<lambda>p. ModelReturned [p]),
      chat_prompt = (\<lambda>message loc. message @ lit '' in '' @ loc),
      card_prompt = (\<lambda>sit lang loc. sit @ lit '' '' @ lang @ lit '' '' @ loc),
      detect_category = (\<lambda>message. if includes_str message (lit ''landlord'')
                                     then Some (lit ''property'') else None),
      mock_reply = lit ''This is a demo answer.'',
      mock_card = (\<lambda>sit lang. [lit ''Demo card'', sit, lang]),
      supported_situations = [lit ''arrested'', lit ''evicted'', lit ''fired'', lit ''cheated''],
      supported_languages = [lit ''English'', lit ''Hindi'', lit ''Kannada'']\<rparr>"

section \<open>Facts about the helpers\<close>

lemma trim_blank: "trim (lit ''   '') = []"
  by (simp add: trim_def lit_def is_ws_def)

lemma trim_hello: "trim (lit '' hello '') = lit ''hello''"
  by (simp add: trim_def lit_def is_ws_def)

lemma saveCurrentChat_frame:
  "messages (saveCurrentChat clk st msgs) = messages st"
  "isLoading (saveCurrentChat clk st msgs) = isLoading st"
  "error (saveCurrentChat clk st msgs) = error st"
  by (simp_all add: saveCurrentChat_def Let_def)

lemma includes_str_hd: "includes_str s (p # ps) \<Longrightarrow> p \<in> set s"
  by (induction s) (auto)

lemma digit_unit: "k < 10 \<Longrightarrow> (of_nat (48 + k) :: 16 word) \<in> digit_units"
proof -
  assume "k < 10"
  then have "k \<in> {0, 1, 2, 3, 4, 5, 6, 7, 8, 9}" by auto
  then show ?thesis by (auto simp: digit_units_def)
qed

lemma digits_range: "set (digits n) \<subseteq> digit_units"
proof (induction n rule: digits.induct)
  case (1 n)
  show ?case
  proof (cases "n < 10")
    case True
    then show ?thesis using digit_unit [of n] by (simp add: digits.simps [of n])
  next
    case False
    then have "set (digits (n div 10)) \<subseteq> digit_units" using 1 by simp
    moreover have "(of_nat (48 + n mod 10) :: 16 word) \<in> digit_units"
      by (rule digit_unit) simp
    ultimately show ?thesis using False by (simp add: digits.simps [of n])
  qed
qed

lemma server_error_not_backend_down: "\<not> backend_down (server_error n)"
proof -
  have a: "set (server_error n) \<subseteq> set (lit ''Server error: '') \<union> digit_units"
    using digits_range [of n] by (auto simp: server_error_def)
  have b: "(70 :: 16 word) \<notin> set (lit ''Server error: '') \<union> digit_units"
    by (simp add: lit_def digit_units_def)
  have c: "(69 :: 16 word) \<notin> set (lit ''Server error: '') \<union> digit_units"
    by (simp add: lit_def digit_units_def)
  have "\<not> includes_str (server_error n) (lit ''Failed to fetch'')"
    using includes_str_hd [of "server_error n" 70 "lit ''ailed to fetch''"] a b
    by (auto simp: lit_def)
  moreover have "\<not> includes_str (server_error n) (lit ''ECONNREFUSED'')"
    using includes_str_hd [of "server_error n" 69 "lit ''CONNREFUSED''"] a c
    by (auto simp: lit_def)
  ultimately show ?thesis by (simp add: backend_down_def)
qed

section \<open>The chat clients: requests and state changes\<close>

lemma sendMessage_requests:
  "snd (sendMessage clk st input res) =
     (if trim input = [] \<or> isLoading st then []
      else [chat_request (trim input) location (sessionId st)])"
  by (simp add: sendMessage_def Let_def)

lemma sendMessage_ci_requests:
  "snd (sendMessage_ci us bs st input res) =
     (if trim input = [] \<or> isLoading_ci st then []
      else [chat_request (trim input) (location_ci st) (sessionId_ci st)])"
  by (simp add: sendMessage_ci_def Let_def)

lemma read_response_ok:
  "response_ok r \<Longrightarrow> body r = JsonObj d data \<Longrightarrow> read_response (Responded r) = Inr data"
  by (simp add: read_response_def)

lemma read_response_failure:
  "\<not> response_ok r \<Longrightarrow> read_response (Responded r) = Inl (ErrorObj (failure_text r))"
  by (simp add: read_response_def)

lemma read_body_of_read_response:
  "read_response res = Inr data \<Longrightarrow> read_body res = Inr (Some data)"
  by (auto simp: read_response_def read_body_def
      split: fetch_result.splits json_body.splits if_splits)

lemma failure_text_cases:
  "failure_text \<lparr>status = n, body = BadJson e\<rparr> = server_error n"
  "failure_text \<lparr>status = n, body = JsonNull m\<rparr> = m"
  "failure_text \<lparr>status = n, body = JsonObj None p\<rparr> = server_error n"
  "js_truthy v \<Longrightarrow> failure_text \<lparr>status = n, body = JsonObj (Some v) p\<rparr> = error_text_of v"
  "\<not> js_truthy v \<Longrightarrow> failure_text \<lparr>status = n, body = JsonObj (Some v) p\<rparr> = server_error n"
  by (simp_all add: failure_text_def)

lemma sendMessage_ok_messages:
  assumes "trim input \<noteq> []" "\<not> isLoading st" "response_ok r" "body r = JsonObj d data"
  shows "messages (fst (sendMessage clk st input (Responded r))) =
           messages st @
           [\<lparr>msg_id = digits (user_id_now clk) @ lit ''_user'', role = User,
             content = trim input, timestamp = user_ts clk, category = None\<rparr>,
            \<lparr>msg_id = digits (bot_id_now clk) @ lit ''_bot'', role = Bot,
             content = reply data, timestamp = bot_ts clk, category = reply_category data\<rparr>]"
  using assms
  by (simp add: sendMessage_def sendMessage_settle_def Let_def read_response_ok
      saveCurrentChat_frame)

lemma sendMessage_ci_ok_messages:
  assumes "trim input \<noteq> []" "\<not> isLoading_ci st" "response_ok r" "body r = JsonObj d data"
  shows "messages_ci (fst (sendMessage_ci us bs st input (Responded r))) =
           messages_ci st @
           [\<lparr>msg_id = digits (id_now us) @ lit ''_'' @ id_rand us, role = User,
             content = trim input, timestamp = ts us, category = None,
             msg_location = Some (location_ci st)\<rparr>,
            \<lparr>msg_id = digits (id_now bs) @ lit ''_'' @ id_rand bs, role = Bot,
             content = reply data, timestamp = ts bs, category = reply_category data,
             msg_location = Some (location_ci st)\<rparr>]"
  using assms
  by (simp add: sendMessage_ci_def sendMessage_ci_settle_def Let_def read_response_ok
      addMessage_def)

lemma sendMessage_failure_state:
  assumes "trim input \<noteq> []" "\<not> isLoading st" "\<not> response_ok r"
      "\<not> backend_down (failure_text r)"
  shows "fst (sendMessage clk st input (Responded r)) =
           st\<lparr>error := Some (lit ''Error: '' @ failure_text r @ lit ''. Please try again.''),
              sidebarOpen := (if length (messages st) = 0 then True else sidebarOpen st),
              messages := messages st @
                [\<lparr>msg_id = digits (user_id_now clk) @ lit ''_user'', role = User,
                  content = trim input, timestamp = user_ts clk, category = None\<rparr>],
              isLoading := False\<rparr>"
  using assms
  by (simp add: sendMessage_def sendMessage_settle_def Let_def read_response_failure)

lemma sendMessage_ci_failure_state:
  assumes "trim input \<noteq> []" "\<not> isLoading_ci st" "\<not> response_ok r"
      "\<not> backend_down (failure_text r)"
  shows "fst (sendMessage_ci us bs st input (Responded r)) =
           st\<lparr>error_ci := Some (lit ''Error: '' @ failure_text r @ lit ''. Please try again.''),
              inputValue := [],
              messages_ci := messages_ci st @
                [\<lparr>msg_id = digits (id_now us) @ lit ''_'' @ id_rand us, role = User,
                  content = trim input, timestamp = ts us, category = None,
                  msg_location = Some (location_ci st)\<rparr>],
              isLoading_ci := False\<rparr>"
  using assms
  by (simp add: sendMessage_ci_def sendMessage_ci_settle_def Let_def read_response_failure
      addMessage_def)

lemma sendMessage_backend_down_state:
  assumes "trim input \<noteq> []" "\<not> isLoading st" "\<not> response_ok r"
      "backend_down (failure_text r)"
  shows "messages (fst (sendMessage clk st input (Responded r))) =
           messages st @
           [\<lparr>msg_id = digits (user_id_now clk) @ lit ''_user'', role = User,
             content = trim input, timestamp = user_ts clk, category = None\<rparr>,
            \<lparr>msg_id = digits (bot_id_now clk) @ lit ''_bot'', role = Bot,
             content = backend_not_connected, timestamp = bot_ts clk, category = None\<rparr>]"
    and "error (fst (sendMessage clk st input (Responded r))) = None"
  using assms
  by (simp_all add: sendMessage_def sendMessage_settle_def Let_def read_response_failure
      saveCurrentChat_frame)

lemma bad_gateway_facts:
  "\<not> response_ok \<lparr>status = 502,
      body = JsonObj (Some (JString (lit ''connect ECONNREFUSED 127.0.0.1:8000'')))
               \<lparr>reply = [], reply_category = None\<rparr>\<rparr>"
  "backend_down (failure_text \<lparr>status = 502,
      body = JsonObj (Some (JString (lit ''connect ECONNREFUSED 127.0.0.1:8000'')))
               \<lparr>reply = [], reply_category = None\<rparr>\<rparr>)"
  by (simp_all add: response_ok_def failure_text_def backend_down_def lit_def)

section \<open>Stored chats\<close>

lemma findIndex_lower: "- 1 \<le> findIndex p xs"
  by (induction xs) (auto simp: Let_def)

lemma findIndex_none: "findIndex p xs < 0 \<longleftrightarrow> (\<forall>x \<in> set xs. \<not> p x)"
  using findIndex_lower [of p]
  by (induction xs) (auto simp: Let_def)

lemma findIndex_first:
  "0 \<le> findIndex p xs \<Longrightarrow>
     nat (findIndex p xs) < length xs \<and> p (xs ! nat (findIndex p xs)) \<and>
     (\<forall>j < nat (findIndex p xs). \<not> p (xs ! j))"
proof (induction xs)
  case Nil
  then show ?case by simp
next
  case (Cons x xs)
  show ?case
  proof (cases "p x")
    case True
    then show ?thesis by simp
  next
    case False
    with Cons.prems have nn: "0 \<le> findIndex p xs"
      by (simp add: Let_def split: if_splits)
    from Cons.IH [OF nn] have ih: "nat (findIndex p xs) < length xs"
      "p (xs ! nat (findIndex p xs))" "\<forall>j < nat (findIndex p xs). \<not> p (xs ! j)"
      by simp_all
    have eq: "findIndex p (x # xs) = findIndex p xs + 1"
      using False nn by (simp add: Let_def)
    have n: "nat (findIndex p xs + 1) = Suc (nat (findIndex p xs))"
      using nn by simp
    show ?thesis
      unfolding eq n using ih False
      by (auto simp: nth_Cons split: nat.splits)
  qed
qed

lemma find_first_none: "(\<forall>x \<in> set xs. \<not> p x) \<Longrightarrow> find_first p xs = None"
  by (induction xs) auto

lemma find_first_split:
  "(\<forall>x \<in> set pre. \<not> p x) \<Longrightarrow> p m \<Longrightarrow> find_first p (pre @ m # post) = Some m"
  by (induction pre) auto

lemma chat_title_no_user:
  "(\<forall>m \<in> set msgs. role m \<noteq> User) \<Longrightarrow> chat_title msgs = lit ''New Chat''"
  by (simp add: chat_title_def find_first_none)

lemma chat_title_first_user:
  "(\<forall>x \<in> set pre. role x \<noteq> User) \<Longrightarrow> role m = User \<Longrightarrow>
     chat_title (pre @ m # post) =
       take 50 (content m) @ (if 50 < length (content m) then lit ''...'' else [])"
  by (simp add: chat_title_def find_first_split)

lemma saveCurrentChat_new:
  assumes "msgs \<noteq> []" and "chatId_or_new clk (activeChatId st) \<notin> chat_id ` set (chatHistory st)"
  shows "chatHistory (saveCurrentChat clk st msgs) =
           \<lparr>chat_id = chatId_or_new clk (activeChatId st), title = chat_title msgs, chat_messages = msgs,
             createdAt = created_iso clk\<rparr> # chatHistory st"
    and "localStorage (saveCurrentChat clk st msgs) = chatHistory (saveCurrentChat clk st msgs)"
proof -
  have "\<forall>c \<in> set (chatHistory st). chat_id c \<noteq> chatId_or_new clk (activeChatId st)"
    using assms(2) by (metis image_eqI)
  then have neg: "findIndex (\<lambda>c. chat_id c = chatId_or_new clk (activeChatId st)) (chatHistory st) < 0"
    by (simp add: findIndex_none)
  show "chatHistory (saveCurrentChat clk st msgs) =
           \<lparr>chat_id = chatId_or_new clk (activeChatId st), title = chat_title msgs, chat_messages = msgs,
             createdAt = created_iso clk\<rparr> # chatHistory st"
    using assms(1) neg
    by (simp add: saveCurrentChat_def Let_def)
  show "localStorage (saveCurrentChat clk st msgs) = chatHistory (saveCurrentChat clk st msgs)"
    using assms(1) by (simp add: saveCurrentChat_def Let_def)
qed

lemma saveCurrentChat_existing:
  assumes "msgs \<noteq> []" and "chatId_or_new clk (activeChatId st) \<in> chat_id ` set (chatHistory st)"
  shows "\<exists>i < length (chatHistory st).
           chat_id (chatHistory st ! i) = chatId_or_new clk (activeChatId st) \<and>
           (\<forall>j < i. chat_id (chatHistory st ! j) \<noteq> chatId_or_new clk (activeChatId st)) \<and>
           chatHistory (saveCurrentChat clk st msgs) =
             (chatHistory st)[i := \<lparr>chat_id = chatId_or_new clk (activeChatId st), title = chat_title msgs,
                                    chat_messages = msgs,
                                    createdAt = createdAt (chatHistory st ! i)\<rparr>]"
proof -
  let ?p = "\<lambda>c. chat_id c = chatId_or_new clk (activeChatId st)"
  let ?k = "findIndex ?p (chatHistory st)"
  have "\<not> (\<forall>c \<in> set (chatHistory st). \<not> ?p c)" using assms(2) by (metis imageE)
  then have nn: "0 \<le> ?k" using findIndex_none [of ?p "chatHistory st"] by linarith
  note f = findIndex_first [OF nn]
  have "chatHistory (saveCurrentChat clk st msgs) =
          (chatHistory st)[nat ?k := \<lparr>chat_id = chatId_or_new clk (activeChatId st), title = chat_title msgs,
                                    chat_messages = msgs,
                                    createdAt = createdAt (chatHistory st ! nat ?k)\<rparr>]"
    using assms(1) nn
    by (simp add: saveCurrentChat_def Let_def)
  with f show ?thesis by blast
qed

lemma saveCurrentChat_sample:
  "chatHistory (saveCurrentChat clk0
       (app0\<lparr>chatHistory := stored_two, activeChatId := Some (lit ''chat_1699980000000_d4e5f6'')\<rparr>)
       first_exchange) =
     [\<lparr>chat_id = lit ''chat_1699990000000_a1b2c3'', title = lit ''Older chat'',
       chat_messages = [], createdAt = lit ''2023-11-14T19:26:40.000Z''\<rparr>,
      \<lparr>chat_id = lit ''chat_1699980000000_d4e5f6'', title = lit ''first'',
       chat_messages = first_exchange, createdAt = lit ''2023-11-14T16:40:00.000Z''\<rparr>]"
  by (simp add: saveCurrentChat_def Let_def app0_def stored_two_def chatId_or_new_def
      chat_title_def first_exchange_def lit_def)

section \<open>Grouping by date\<close>

text \<open>
  The loop of \<open>groupByDate\<close> appends each chat to the group at its position; after the loop
  every group holds, in input order, the chats of its position.
\<close>

lemma bucket_cases:
  "bucket t y w c = 0 \<or> bucket t y w c = 1 \<or> bucket t y w c = 2 \<or> bucket t y w c = 3"
  by (simp add: bucket_def)

lemma place_chat_bucket:
  "place_chat t y w [g0, g1, g2, g3] c =
     (if bucket t y w c = 0 then [g0\<lparr>chats := chats g0 @ [c]\<rparr>, g1, g2, g3]
      else if bucket t y w c = 1 then [g0, g1\<lparr>chats := chats g1 @ [c]\<rparr>, g2, g3]
      else if bucket t y w c = 2 then [g0, g1, g2\<lparr>chats := chats g2 @ [c]\<rparr>, g3]
      else [g0, g1, g2, g3\<lparr>chats := chats g3 @ [c]\<rparr>])"
  by (simp add: place_chat_def bucket_def push_chat_def Let_def)

lemma foldl_place_chat:
  "foldl (place_chat t y w) [g0, g1, g2, g3] cs =
     [g0\<lparr>chats := chats g0 @ filter (\<lambda>c. bucket t y w c = 0) cs\<rparr>,
      g1\<lparr>chats := chats g1 @ filter (\<lambda>c. bucket t y w c = 1) cs\<rparr>,
      g2\<lparr>chats := chats g2 @ filter (\<lambda>c. bucket t y w c = 2) cs\<rparr>,
      g3\<lparr>chats := chats g3 @ filter (\<lambda>c. bucket t y w c = 3) cs\<rparr>]"
proof (induction cs arbitrary: g0 g1 g2 g3)
  case Nil
  show ?case by simp
next
  case (Cons c cs)
  show ?case
    using bucket_cases [of t y w c]
    by (auto simp: place_chat_bucket Cons.IH)
qed

lemma count_list_buckets:
  "count_list (filter (\<lambda>c. bucket t y w c = 0) cs) x +
   count_list (filter (\<lambda>c. bucket t y w c = 1) cs) x +
   count_list (filter (\<lambda>c. bucket t y w c = 2) cs) x +
   count_list (filter (\<lambda>c. bucket t y w c = 3) cs) x = count_list cs x"
proof (induction cs)
  case Nil
  show ?case by simp
next
  case (Cons c cs)
  then show ?case using bucket_cases [of t y w c] by auto
qed

lemma count_list_append: "count_list (xs @ ys) x = count_list xs x + count_list ys x"
  by (induction xs) auto

lemma concat_drop_empty:
  "concat (map chats (filter (\<lambda>g. 0 < length (chats g)) gs)) = concat (map chats gs)"
  by (induction gs) auto

lemma group_labels_distinct: "distinct group_labels"
  by (simp add: group_labels_def lit_def)

lemma day_label_bucket:
  "day_label cal now c =
     group_labels ! bucket (local_midnight cal now) (days_before cal (local_midnight cal now) 1)
                      (days_before cal (local_midnight cal now) 7) c"
  by (simp add: day_label_def bucket_def group_labels_def Let_def)

lemma groupByDate_eq:
  "groupByDate cal now cs =
     filter (\<lambda>g. chats g \<noteq> [])
       (map (\<lambda>l. \<lparr>label = l, chats = filter (\<lambda>c. day_label cal now c = l) cs\<rparr>) group_labels)"
proof -
  let ?t = "local_midnight cal now"
  let ?b = "bucket ?t (days_before cal ?t 1) (days_before cal ?t 7)"
  have l: "\<And>c i. i < 4 \<Longrightarrow> (day_label cal now c = group_labels ! i) = (?b c = i)"
  proof -
    fix c i assume "i < (4::nat)"
    then have "i = 0 \<or> i = 1 \<or> i = 2 \<or> i = 3" by auto
    then show "(day_label cal now c = group_labels ! i) = (?b c = i)"
      using bucket_cases [of ?t "days_before cal ?t 1" "days_before cal ?t 7" c]
      unfolding day_label_bucket
      by (auto simp: group_labels_def lit_def)
  qed
  have l0: "\<And>c. (day_label cal now c = lit ''Today'') = (?b c = 0)"
    using l [of 0] by (simp add: group_labels_def)
  have l1: "\<And>c. (day_label cal now c = lit ''Yesterday'') = (?b c = 1)"
    using l [of 1] by (simp add: group_labels_def)
  have l2: "\<And>c. (day_label cal now c = lit ''Previous 7 Days'') = (?b c = 2)"
    using l [of 2] by (simp add: group_labels_def)
  have l3: "\<And>c. (day_label cal now c = lit ''Older'') = (?b c = 3)"
    using l [of 3] by (simp add: group_labels_def)
  have "groupByDate cal now cs =
      filter (\<lambda>g. chats g \<noteq> [])
       [\<lparr>label = lit ''Today'', chats = filter (\<lambda>c. ?b c = 0) cs\<rparr>,
        \<lparr>label = lit ''Yesterday'', chats = filter (\<lambda>c. ?b c = 1) cs\<rparr>,
        \<lparr>label = lit ''Previous 7 Days'', chats = filter (\<lambda>c. ?b c = 2) cs\<rparr>,
        \<lparr>label = lit ''Older'', chats = filter (\<lambda>c. ?b c = 3) cs\<rparr>]"
    unfolding groupByDate_def Let_def foldl_place_chat by simp
  also have "\<dots> = filter (\<lambda>g. chats g \<noteq> [])
       (map (\<lambda>l. \<lparr>label = l, chats = filter (\<lambda>c. day_label cal now c = l) cs\<rparr>) group_labels)"
    unfolding group_labels_def list.map l0 l1 l2 l3 ..
  finally show ?thesis .
qed

lemma day_label_in_labels: "day_label cal now c \<in> set group_labels"
  by (simp add: day_label_def group_labels_def Let_def)

lemma groupByDate_count:
  "count_list (concat (map chats (groupByDate cal now cs))) x = count_list cs x"
proof -
  let ?t = "local_midnight cal now"
  let ?b = "bucket ?t (days_before cal ?t 1) (days_before cal ?t 7)"
  have "concat (map chats (groupByDate cal now cs)) =
          filter (\<lambda>c. ?b c = 0) cs @ filter (\<lambda>c. ?b c = 1) cs @
          filter (\<lambda>c. ?b c = 2) cs @ filter (\<lambda>c. ?b c = 3) cs"
    unfolding groupByDate_def Let_def foldl_place_chat concat_drop_empty by simp
  then show ?thesis
    using count_list_buckets [of ?t "days_before cal ?t 1" "days_before cal ?t 7" cs x]
    by (simp add: count_list_append)
qed

lemma groupByDate_member:
  "g \<in> set (groupByDate cal now cs) \<longleftrightarrow>
     label g \<in> set group_labels \<and> chats g \<noteq> [] \<and>
     chats g = filter (\<lambda>c. day_label cal now c = label g) cs"
proof
  assume "g \<in> set (groupByDate cal now cs)"
  then show "label g \<in> set group_labels \<and> chats g \<noteq> [] \<and>
     chats g = filter (\<lambda>c. day_label cal now c = label g) cs"
    unfolding groupByDate_eq by auto
next
  assume a: "label g \<in> set group_labels \<and> chats g \<noteq> [] \<and>
     chats g = filter (\<lambda>c. day_label cal now c = label g) cs"
  then have a1: "label g \<in> set group_labels" and a2: "chats g \<noteq> []"
    and a3: "chats g = filter (\<lambda>c. day_label cal now c = label g) cs"
    by blast+
  have "g = \<lparr>label = label g, chats = chats g\<rparr>" by simp
  then have "g = \<lparr>label = label g,
                   chats = filter (\<lambda>c. day_label cal now c = label g) cs\<rparr>"
    using a3 by metis
  then have "g \<in> (\<lambda>l. \<lparr>label = l, chats = filter (\<lambda>c. day_label cal now c = l) cs\<rparr>)
                  ` set group_labels"
    using a1 by (rule image_eqI)
  then show "g \<in> set (groupByDate cal now cs)"
    unfolding groupByDate_eq using a2 by simp
qed

lemma labels_of_nonempty_groups:
  "map label (filter (\<lambda>g. chats g \<noteq> []) (map (\<lambda>l. \<lparr>label = l, chats = f l\<rparr>) ls)) =
     filter (\<lambda>l. f l \<noteq> []) ls"
  by (induction ls) auto

lemma groupByDate_labels_distinct: "distinct (map label (groupByDate cal now cs))"
  unfolding groupByDate_eq labels_of_nonempty_groups
  using group_labels_distinct by simp

lemma groupByDate_sample:
  "groupByDate utc_calendar (TimeValue 1700000000000)
       [session_old, session_today, session_undated] =
     [\<lparr>label = lit ''Today'', chats = [session_today]\<rparr>,
      \<lparr>label = lit ''Older'', chats = [session_old, session_undated]\<rparr>]"
proof -
  have d: "cs_createdAt session_old = TimeValue 1690000000000"
    "cs_createdAt session_today = TimeValue 1699950000000"
    "cs_createdAt session_undated = InvalidDate"
    by (simp_all add: session_today_def session_old_def session_undated_def)
  show ?thesis
    unfolding groupByDate_def Let_def foldl_place_chat
    by (simp add: bucket_def utc_calendar_def d)
qed

section \<open>Requests of the rights-card modal\<close>

text \<open>
  The selected situation and language only ever come from the options the modal renders,
  whatever the order of clicks and settling fetches; so every request the modal issues is
  well formed.
\<close>

lemma settle_keeps_selection:
  "selectedSituation (handleGenerate_settle st res) = selectedSituation st"
  "selectedLanguage (handleGenerate_settle st res) = selectedLanguage st"
  by (simp_all add: handleGenerate_settle_def Let_def split: sum.splits)

lemma english_supported: "lit ''English'' \<in> lang_id ` set LANGUAGES"
  by (simp add: LANGUAGES_def)

lemma rc_inv_initial: "rc_inv loc \<lparr>component = rc_initial, pending = 0, issued = []\<rparr>"
  by (simp add: rc_inv_def rc_initial_def english_supported)

lemma rc_handle_inv:
  assumes "rc_inv loc run" and "rendered (component run) c"
  shows "rc_inv loc (rc_handle loc run c)"
proof (cases c)
  case (SituationClicked sit)
  with assms show ?thesis by (auto simp: rc_inv_def handleSituationSelect_def)
next
  case (LanguageClicked lang)
  with assms show ?thesis by (auto simp: rc_inv_def)
next
  case GenerateClicked
  show ?thesis
  proof (cases "handleGenerate_begin loc (component run)")
    case None
    with GenerateClicked assms show ?thesis by simp
  next
    case (Some p)
    obtain st1 req where p: "p = (st1, req)" by (cases p)
    from Some p obtain sit where
      s: "selectedSituation (component run) = Some sit"
      and st1: "st1 = (component run)\<lparr>isGenerating := True, rc_error := None\<rparr>"
      and req: "req = rights_card_request sit (selectedLanguage (component run)) loc"
      by (auto simp: handleGenerate_begin_def split: option.splits if_splits)
    from assms(1) s have "sit \<in> sit_id ` set SITUATIONS" by (auto simp: rc_inv_def)
    moreover from assms(1) have "selectedLanguage (component run) \<in> lang_id ` set LANGUAGES"
      by (simp add: rc_inv_def)
    ultimately have "good_request loc req"
      unfolding req good_request_def rights_card_request_def by auto
    with assms(1) Some p st1 GenerateClicked show ?thesis
      by (auto simp: rc_inv_def)
  qed
next
  case BackClicked
  with assms show ?thesis by (auto simp: rc_inv_def handleBack_def)
next
  case (DownloadClicked failed)
  with assms show ?thesis by (auto simp: rc_inv_def handleDownload_def)
next
  case ResetClicked
  with assms show ?thesis by (auto simp: rc_inv_def handleReset_def english_supported)
qed

lemma rc_fire_inv: "rc_inv loc run \<Longrightarrow> rc_inv loc (rc_fire loc run ev)"
proof (cases ev)
  case (Control c)
  assume "rc_inv loc run"
  with Control show ?thesis by (simp add: rc_handle_inv)
next
  case (FetchSettled res)
  assume "rc_inv loc run"
  with FetchSettled show ?thesis by (simp add: rc_inv_def settle_keeps_selection)
qed

lemma foldl_rc_fire_inv: "rc_inv loc run \<Longrightarrow> rc_inv loc (foldl (rc_fire loc) run evs)"
  by (induction evs arbitrary: run) (simp_all add: rc_fire_inv)

lemma modal_requests_have_three_fields:
  "\<forall>req \<in> set (issued (rc_run loc evs)). good_request loc req"
  using foldl_rc_fire_inv [OF rc_inv_initial, of loc evs]
  by (simp add: rc_run_def rc_inv_def)

text \<open>
  A run of the modal through all three steps and back: select, configure, result, then back
  twice; it issues one request.
\<close>

lemma wizard_round_trip:
  "component (rc_run loc
     [Control (SituationClicked (SITUATIONS ! 0)), Control GenerateClicked,
      FetchSettled (Responded \<lparr>status = 200, body = JsonObj None sample_card\<rparr>)])
     = \<lparr>step = Result, selectedSituation = Some (lit ''arrested''),
        selectedLanguage = lit ''English'', isGenerating = False,
        cardData = Some sample_card, rc_error = None\<rparr>"
  "component (rc_run loc
     [Control (SituationClicked (SITUATIONS ! 0)), Control GenerateClicked,
      FetchSettled (Responded \<lparr>status = 200, body = JsonObj None sample_card\<rparr>),
      Control BackClicked, Control BackClicked]) = rc_initial"
  "issued (rc_run loc
     [Control (SituationClicked (SITUATIONS ! 0)), Control GenerateClicked,
      FetchSettled (Responded \<lparr>status = 200, body = JsonObj None sample_card\<rparr>)])
     = [rights_card_request (lit ''arrested'') (lit ''English'') loc]"
  by (simp_all add: rc_run_def rc_initial_def SITUATIONS_def handleSituationSelect_def
      handleGenerate_begin_def handleGenerate_settle_def read_body_def response_ok_def
      handleBack_def lit_def)

section \<open>Results\<close>

text \<open>
  Claim C8. When the trimmed input is empty, or while a request is in flight (\<open>isLoading\<close>),
  \<open>sendMessage\<close> of either chat client does nothing: it issues no request and returns the
  state as it was, so the message list, the error and the loading flag are unchanged.
\<close>

theorem sendMessage_noop:
  "(trim input = [] \<or> isLoading st \<longrightarrow> sendMessage clk st input res = (st, [])) \<and>
   (trim input = [] \<or> isLoading_ci st' \<longrightarrow>
      sendMessage_ci user_stamp bot_stamp st' input res = (st', []))"
  by (simp add: sendMessage_def sendMessage_ci_def)

text \<open>C8 at a blank input and at a state with a request in flight.\<close>

theorem sendMessage_noop_witness:
  "trim (lit ''   '') = [] \<and> isLoading (app0\<lparr>isLoading := True\<rparr>) \<and>
   sendMessage clk0 app0 (lit ''   '') ok_reply = (app0, []) \<and>
   sendMessage clk0 (app0\<lparr>isLoading := True\<rparr>) (lit ''hello'') ok_reply
     = (app0\<lparr>isLoading := True\<rparr>, []) \<and>
   sendMessage_ci stamp_u stamp_b ci0 (lit ''   '') ok_reply = (ci0, [])"
  using sendMessage_noop [where input = "lit ''   ''" and st = app0 and clk = clk0
          and res = ok_reply and st' = ci0 and user_stamp = stamp_u and bot_stamp = stamp_b]
        sendMessage_noop [where input = "lit ''hello''" and st = "app0\<lparr>isLoading := True\<rparr>"
          and clk = clk0 and res = ok_reply and st' = ci0 and user_stamp = stamp_u
          and bot_stamp = stamp_b]
  by (simp add: trim_blank)

text \<open>
  Claim C1 as stated fails: with one exchange already in the conversation, the request for
  the second message has the three fields of any other request, and neither the earlier
  question nor the earlier answer occurs in it.
\<close>

theorem chat_request_replays_history_counterexample:
  "messages (app0\<lparr>messages := first_exchange\<rparr>) \<noteq> [] \<and>
   snd (sendMessage clk0 (app0\<lparr>messages := first_exchange\<rparr>) (lit ''second'') ok_reply)
     = [chat_request (lit ''second'') location (lit ''session_1699999999000'')] \<and>
   \<not> carries_history (chat_request (lit ''second'') location (lit ''session_1699999999000''))
        (messages (app0\<lparr>messages := first_exchange\<rparr>))"
  by (simp add: sendMessage_requests app0_def first_exchange_def carries_history_def
      chat_request_def location_def trim_def is_ws_def lit_def)

text \<open>
  Claim C1, amended. The history is held by the client only and is not sent: the requests
  that \<open>sendMessage\<close> issues are the same whatever the message list held before, and the
  body of a request consists of the newest trimmed message, the location and the session id.
\<close>

theorem chat_request_newest_only:
  "snd (sendMessage clk (st\<lparr>messages := history\<rparr>) input res)
     = snd (sendMessage clk st input res) \<and>
   snd (sendMessage_ci user_stamp bot_stamp (st'\<lparr>messages_ci := history'\<rparr>) input res)
     = snd (sendMessage_ci user_stamp bot_stamp st' input res) \<and>
   (\<forall>req \<in> set (snd (sendMessage clk st input res)).
      json_fields req = [(lit ''message'', trim input), (lit ''location'', location),
                         (lit ''session_id'', sessionId st)]) \<and>
   (\<forall>req \<in> set (snd (sendMessage_ci user_stamp bot_stamp st' input res)).
      json_fields req = [(lit ''message'', trim input), (lit ''location'', location_ci st'),
                         (lit ''session_id'', sessionId_ci st')])"
  by (simp add: sendMessage_requests sendMessage_ci_requests chat_request_def)

text \<open>C1 (amended) at the second message of a conversation.\<close>

theorem chat_request_newest_only_witness:
  "snd (sendMessage clk0 (app0\<lparr>messages := first_exchange\<rparr>) (lit ''second'') ok_reply)
     = snd (sendMessage clk0 app0 (lit ''second'') ok_reply) \<and>
   chat_request (lit ''second'') location (sessionId app0)
     \<in> set (snd (sendMessage clk0 app0 (lit ''second'') ok_reply)) \<and>
   json_fields (chat_request (lit ''second'') location (sessionId app0))
     = [(lit ''message'', lit ''second''), (lit ''location'', location),
        (lit ''session_id'', sessionId app0)]"
  using chat_request_newest_only [where clk = clk0 and st = app0 and history = first_exchange
          and input = "lit ''second''" and res = ok_reply and user_stamp = stamp_u
          and bot_stamp = stamp_b and st' = ci0 and history' = "[]"]
  by (simp add: sendMessage_requests app0_def chat_request_def trim_def is_ws_def lit_def)

text \<open>
  Claim C4 as stated fails: a non-empty message submitted while a request is in flight, and
  a non-empty message of blanks only, issue no request.
\<close>

theorem sendMessage_posts_for_every_message_counterexample:
  "lit ''hello'' \<noteq> [] \<and> trim (lit ''hello'') \<noteq> [] \<and>
   snd (sendMessage clk0 (app0\<lparr>isLoading := True\<rparr>) (lit ''hello'') ok_reply) = [] \<and>
   lit ''   '' \<noteq> [] \<and>
   snd (sendMessage clk0 app0 (lit ''   '') ok_reply) = []"
  by (simp add: sendMessage_requests app0_def trim_def is_ws_def lit_def)

text \<open>
  Claim C4, amended. For every message whose trimmed text is non-empty, submitted while no
  request is in flight, the chat client issues exactly one \<open>POST /api/chat\<close> whose JSON body
  has exactly the fields \<open>message\<close> (the trimmed text), \<open>location\<close> and \<open>session_id\<close>; on a
  2xx response with a JSON body, the user message and then a bot message are appended, the
  bot message having the body's \<open>reply\<close> as content and the body's \<open>category\<close> (if any) as
  category.
\<close>

theorem sendMessage_posts_trimmed_and_appends_reply:
  assumes "trim input \<noteq> []" and "\<not> isLoading st" and "\<not> isLoading_ci st'"
  shows
    "snd (sendMessage clk st input res) =
       [\<lparr>url = lit ''/api/chat'', http_method = lit ''POST'',
         headers = [(lit ''Content-Type'', lit ''application/json'')],
         json_fields = [(lit ''message'', trim input), (lit ''location'', location),
                        (lit ''session_id'', sessionId st)]\<rparr>] \<and>
     snd (sendMessage_ci user_stamp bot_stamp st' input res) =
       [\<lparr>url = lit ''/api/chat'', http_method = lit ''POST'',
         headers = [(lit ''Content-Type'', lit ''application/json'')],
         json_fields = [(lit ''message'', trim input), (lit ''location'', location_ci st'),
                        (lit ''session_id'', sessionId_ci st')]\<rparr>] \<and>
     (\<forall>r d data. res = Responded r \<and> response_ok r \<and> body r = JsonObj d data \<longrightarrow>
        messages (fst (sendMessage clk st input res)) =
          messages st @
          [\<lparr>msg_id = digits (user_id_now clk) @ lit ''_user'', role = User,
            content = trim input, timestamp = user_ts clk, category = None\<rparr>,
           \<lparr>msg_id = digits (bot_id_now clk) @ lit ''_bot'', role = Bot,
            content = reply data, timestamp = bot_ts clk, category = reply_category data\<rparr>] \<and>
        messages_ci (fst (sendMessage_ci user_stamp bot_stamp st' input res)) =
          messages_ci st' @
          [\<lparr>msg_id = digits (id_now user_stamp) @ lit ''_'' @ id_rand user_stamp, role = User,
            content = trim input, timestamp = ts user_stamp, category = None,
            msg_location = Some (location_ci st')\<rparr>,
           \<lparr>msg_id = digits (id_now bot_stamp) @ lit ''_'' @ id_rand bot_stamp, role = Bot,
            content = reply data, timestamp = ts bot_stamp, category = reply_category data,
            msg_location = Some (location_ci st')\<rparr>])"
  using assms
  by (auto simp: sendMessage_requests sendMessage_ci_requests chat_request_def
      sendMessage_ok_messages sendMessage_ci_ok_messages)

text \<open>C4 (amended) at the first message of a conversation, answered with status 200.\<close>

theorem sendMessage_posts_trimmed_and_appends_reply_witness:
  "trim (lit '' hello '') \<noteq> [] \<and> \<not> isLoading app0 \<and> \<not> isLoading_ci ci0 \<and>
   snd (sendMessage clk0 app0 (lit '' hello '') ok_reply) =
     [\<lparr>url = lit ''/api/chat'', http_method = lit ''POST'',
       headers = [(lit ''Content-Type'', lit ''application/json'')],
       json_fields = [(lit ''message'', lit ''hello''),
                      (lit ''location'', lit ''Bengaluru, Karnataka''),
                      (lit ''session_id'', lit ''session_1699999999000'')]\<rparr>] \<and>
   map content (messages (fst (sendMessage clk0 app0 (lit '' hello '') ok_reply)))
     = [lit ''hello'', lit ''Section 21''] \<and>
   map category (messages_ci (fst (sendMessage_ci stamp_u stamp_b ci0 (lit '' hello '') ok_reply)))
     = [None, Some (lit ''property'')]"
proof -
  have h1: "trim (lit '' hello '') \<noteq> []" by (simp add: trim_def is_ws_def lit_def)
  have h2: "\<not> isLoading app0" by (simp add: app0_def)
  have h3: "\<not> isLoading_ci ci0" by (simp add: ci0_def)
  have ok: "response_ok \<lparr>status = 200,
      body = JsonObj None \<lparr>reply = lit ''Section 21'', reply_category = Some (lit ''property'')\<rparr>\<rparr>"
    by (simp add: response_ok_def)
  note t = sendMessage_posts_trimmed_and_appends_reply [OF h1 h2 h3, where clk = clk0
      and res = ok_reply and user_stamp = stamp_u and bot_stamp = stamp_b]
  show ?thesis
    using t h1 h2 h3 ok
    by (simp add: ok_reply_def trim_hello location_def app0_def ci0_def)
qed

text \<open>
  Claim C6 as stated fails: a status 502 whose \<open>detail\<close> mentions \<open>ECONNREFUSED\<close> is taken for
  an unreachable backend; a canned bot message is appended and no error is set.
\<close>

theorem non_2xx_sets_error_counterexample:
  "\<not> response_ok \<lparr>status = 502,
      body = JsonObj (Some (JString (lit ''connect ECONNREFUSED 127.0.0.1:8000'')))
               \<lparr>reply = [], reply_category = None\<rparr>\<rparr> \<and>
   map role (messages (fst (sendMessage clk0 app0 (lit ''hello'') bad_gateway))) = [User, Bot] \<and>
   error (fst (sendMessage clk0 app0 (lit ''hello'') bad_gateway)) = None"
proof -
  have h1: "trim (lit ''hello'') \<noteq> []" by (simp add: trim_def is_ws_def lit_def)
  have h2: "\<not> isLoading app0" by (simp add: app0_def)
  show ?thesis
    using sendMessage_backend_down_state [OF h1 h2 bad_gateway_facts, of clk0]
      bad_gateway_facts(1)
    by (simp add: bad_gateway_def app0_def)
qed

text \<open>
  Claim C6, amended. Whenever \<open>POST /api/chat\<close> answers with a non-2xx status and the text
  of the failure contains neither \<open>Failed to fetch\<close> nor \<open>ECONNREFUSED\<close>, the chat UI
  appends the user message only, leaves the bot messages unchanged, clears the loading flag,
  and sets the error to \<open>Error: <text>. Please try again.\<close> The text of the failure is
  the message made from the body's \<open>detail\<close> when that is truthy (the detail itself when it
  is a string), the message of the engine's \<open>TypeError\<close> when the body is \<open>null\<close>, and
  \<open>Server error: <status>\<close> otherwise.
\<close>

theorem non_2xx_sets_error:
  assumes "trim input \<noteq> []" and "\<not> isLoading st" and "\<not> isLoading_ci st'"
    and "\<not> response_ok r" and "\<not> backend_down (failure_text r)"
  shows
    "messages (fst (sendMessage clk st input (Responded r))) =
       messages st @
       [\<lparr>msg_id = digits (user_id_now clk) @ lit ''_user'', role = User,
         content = trim input, timestamp = user_ts clk, category = None\<rparr>] \<and>
     filter (\<lambda>m. role m = Bot) (messages (fst (sendMessage clk st input (Responded r))))
       = filter (\<lambda>m. role m = Bot) (messages st) \<and>
     \<not> isLoading (fst (sendMessage clk st input (Responded r))) \<and>
     error (fst (sendMessage clk st input (Responded r)))
       = Some (lit ''Error: '' @ failure_text r @ lit ''. Please try again.'') \<and>
     messages_ci (fst (sendMessage_ci user_stamp bot_stamp st' input (Responded r))) =
       messages_ci st' @
       [\<lparr>msg_id = digits (id_now user_stamp) @ lit ''_'' @ id_rand user_stamp, role = User,
         content = trim input, timestamp = ts user_stamp, category = None,
         msg_location = Some (location_ci st')\<rparr>] \<and>
     filter (\<lambda>m. role m = Bot)
         (messages_ci (fst (sendMessage_ci user_stamp bot_stamp st' input (Responded r))))
       = filter (\<lambda>m. role m = Bot) (messages_ci st') \<and>
     \<not> isLoading_ci (fst (sendMessage_ci user_stamp bot_stamp st' input (Responded r))) \<and>
     error_ci (fst (sendMessage_ci user_stamp bot_stamp st' input (Responded r)))
       = Some (lit ''Error: '' @ failure_text r @ lit ''. Please try again.'')"
  using assms
  by (simp add: sendMessage_failure_state sendMessage_ci_failure_state)

text \<open>
  C6 (amended) at a status 503 without a readable body, at a status 500 with the body
  \<open>null\<close>, and at a status 422 whose detail is a list of objects.
\<close>

theorem non_2xx_sets_error_witness:
  "trim (lit '' hello '') \<noteq> [] \<and> \<not> isLoading app0 \<and> \<not> isLoading_ci ci0 \<and>
   \<not> response_ok (\<lparr>status = 503, body = BadJson (ErrorObj (lit ''Unexpected token''))\<rparr>
                     :: chat_payload response) \<and>
   error (fst (sendMessage clk0 app0 (lit '' hello '') unavailable))
     = Some (lit ''Error: Server error: 503. Please try again.'') \<and>
   map role (messages (fst (sendMessage clk0 app0 (lit '' hello '') unavailable))) = [User] \<and>
   \<not> isLoading_ci (fst (sendMessage_ci stamp_u stamp_b ci0 (lit '' hello '') unavailable)) \<and>
   error (fst (sendMessage clk0 app0 (lit '' hello '') null_failure))
     = Some (lit ''Error: '' @ null_read_message @ lit ''. Please try again.'') \<and>
   error_ci (fst (sendMessage_ci stamp_u stamp_b ci0 (lit '' hello '') validation_failure))
     = Some (lit ''Error: [object Object]. Please try again.'')"
proof -
  let ?r = "\<lparr>status = 503, body = BadJson (ErrorObj (lit ''Unexpected token''))\<rparr>
              :: chat_payload response"
  let ?n = "\<lparr>status = 500, body = JsonNull null_read_message\<rparr> :: chat_payload response"
  let ?v = "\<lparr>status = 422, body = JsonObj (Some (JCompound (lit ''[object Object]'')))
               \<lparr>reply = [], reply_category = None\<rparr>\<rparr> :: chat_payload response"
  have h1: "trim (lit '' hello '') \<noteq> []" by (simp add: trim_def is_ws_def lit_def)
  have h2: "\<not> isLoading app0" by (simp add: app0_def)
  have h3: "\<not> isLoading_ci ci0" by (simp add: ci0_def)
  have h4: "\<not> response_ok ?r" "\<not> response_ok ?n" "\<not> response_ok ?v"
    by (simp_all add: response_ok_def)
  have ft: "failure_text ?r = lit ''Server error: 503''"
    by (simp add: failure_text_def server_error_def digits.simps lit_def)
  have fn: "failure_text ?n = null_read_message" by (simp add: failure_text_def)
  have fv: "failure_text ?v = lit ''[object Object]''" by (simp add: failure_text_def)
  have h5: "\<not> backend_down (failure_text ?r)"
    by (simp add: failure_text_def server_error_not_backend_down)
  have h6: "\<not> backend_down (failure_text ?n)"
    unfolding fn by (simp add: backend_down_def null_read_message_def lit_def)
  have h7: "\<not> backend_down (failure_text ?v)"
    unfolding fv by (simp add: backend_down_def lit_def)
  note t = non_2xx_sets_error [OF h1 h2 h3 h4(1) h5, where clk = clk0
      and user_stamp = stamp_u and bot_stamp = stamp_b]
  note tn = non_2xx_sets_error [OF h1 h2 h3 h4(2) h6, where clk = clk0
      and user_stamp = stamp_u and bot_stamp = stamp_b]
  note tv = non_2xx_sets_error [OF h1 h2 h3 h4(3) h7, where clk = clk0
      and user_stamp = stamp_u and bot_stamp = stamp_b]
  have a: "error (fst (sendMessage clk0 app0 (lit '' hello '') unavailable))
     = Some (lit ''Error: Server error: 503. Please try again.'') \<and>
   map role (messages (fst (sendMessage clk0 app0 (lit '' hello '') unavailable))) = [User] \<and>
   \<not> isLoading_ci (fst (sendMessage_ci stamp_u stamp_b ci0 (lit '' hello '') unavailable))"
    using t ft by (simp add: unavailable_def app0_def trim_def is_ws_def lit_def)
  have b: "error (fst (sendMessage clk0 app0 (lit '' hello '') null_failure))
     = Some (lit ''Error: '' @ null_read_message @ lit ''. Please try again.'')"
    using tn unfolding fn null_failure_def by blast
  have c: "error_ci (fst (sendMessage_ci stamp_u stamp_b ci0 (lit '' hello '') validation_failure))
     = Some (lit ''Error: [object Object]. Please try again.'')"
    using tv unfolding fv validation_failure_def by (simp add: lit_def)
  from h1 h2 h3 h4(1) a b c show ?thesis by (intro conjI) blast+
qed

text \<open>
  Claim C2 holds for the modal (\<open>modal_requests_have_three_fields\<close>) but not for the
  standalone page: in its initial state the page sends a body with the two fields
  \<open>situation\<close> and \<open>language\<close> only, and its situation is none of the modal's.
\<close>

theorem page_request_omits_location:
  "snd (page_handleGenerate None page_initial page_ok) =
     [\<lparr>url = lit ''http://localhost:8000/api/rights-card'', http_method = lit ''POST'',
       headers = [(lit ''Content-Type'', lit ''application/json'')],
       json_fields = [(lit ''situation'', lit ''Arrested by Police''),
                      (lit ''language'', lit ''English'')]\<rparr>] \<and>
   lit ''Arrested by Police'' \<notin> sit_id ` set SITUATIONS"
  by (simp add: page_handleGenerate_def page_initial_def Let_def SITUATIONS_def lit_def)

text \<open>
  Claim C3. The step of the wizard is one of select, configure and result. Going back from
  result leads to configure and clears the card data; going back from configure leads to
  select and clears the selected situation; at select there is nothing to go back to.
  Select and configure are entered again that way, and left forward by choosing a situation
  (to configure) and by a successful generation (to result). Result is terminal in the
  forward direction: a settling fetch leaves the wizard there, and the controls rendered
  there lead back to configure, reset to select, or stay.
\<close>

theorem wizard_steps_and_back_navigation:
  "(step st = Select \<or> step st = Configure \<or> step st = Result) \<and>
   (step st = Result \<longrightarrow> handleBack st = st\<lparr>step := Configure, cardData := None\<rparr>) \<and>
   (step st = Configure \<longrightarrow> handleBack st = st\<lparr>step := Select, selectedSituation := None\<rparr>) \<and>
   (step st = Select \<longrightarrow> handleBack st = st) \<and>
   (step st = Select \<and> sit \<in> set SITUATIONS \<longrightarrow>
      rendered st (SituationClicked sit) \<and>
      handleSituationSelect st (sit_id sit)
        = st\<lparr>selectedSituation := Some (sit_id sit), step := Configure\<rparr>) \<and>
   (read_response res = Inr data \<longrightarrow>
      step (handleGenerate_settle st res) = Result \<and>
      cardData (handleGenerate_settle st res) = Some data) \<and>
   (step st = Result \<longrightarrow> step (handleGenerate_settle st res) = Result) \<and>
   (\<forall>c. step (component run) = Result \<and> rendered (component run) c \<longrightarrow>
      (c = BackClicked \<and> step (component (rc_handle loc run c)) = Configure) \<or>
      (c = ResetClicked \<and> step (component (rc_handle loc run c)) = Select) \<or>
      ((\<exists>failed. c = DownloadClicked failed) \<and>
       step (component (rc_handle loc run c)) = Result))"
proof (intro conjI)
  show "step st = Select \<or> step st = Configure \<or> step st = Result"
    by (cases "step st") simp_all
  show "step st = Result \<longrightarrow> handleBack st = st\<lparr>step := Configure, cardData := None\<rparr>"
    by (simp add: handleBack_def)
  show "step st = Configure \<longrightarrow>
          handleBack st = st\<lparr>step := Select, selectedSituation := None\<rparr>"
    by (simp add: handleBack_def)
  show "step st = Select \<longrightarrow> handleBack st = st"
    by (simp add: handleBack_def)
  show "step st = Select \<and> sit \<in> set SITUATIONS \<longrightarrow>
      rendered st (SituationClicked sit) \<and>
      handleSituationSelect st (sit_id sit)
        = st\<lparr>selectedSituation := Some (sit_id sit), step := Configure\<rparr>"
    by (simp add: handleSituationSelect_def)
  show "read_response res = Inr data \<longrightarrow>
      step (handleGenerate_settle st res) = Result \<and>
      cardData (handleGenerate_settle st res) = Some data"
    by (auto simp: handleGenerate_settle_def read_body_of_read_response)
  show "step st = Result \<longrightarrow> step (handleGenerate_settle st res) = Result"
    by (simp add: handleGenerate_settle_def Let_def split: sum.splits)
  show "\<forall>c. step (component run) = Result \<and> rendered (component run) c \<longrightarrow>
      (c = BackClicked \<and> step (component (rc_handle loc run c)) = Configure) \<or>
      (c = ResetClicked \<and> step (component (rc_handle loc run c)) = Select) \<or>
      ((\<exists>failed. c = DownloadClicked failed) \<and>
       step (component (rc_handle loc run c)) = Result)"
  proof (intro allI impI)
    fix c assume a: "step (component run) = Result \<and> rendered (component run) c"
    then show "(c = BackClicked \<and> step (component (rc_handle loc run c)) = Configure) \<or>
      (c = ResetClicked \<and> step (component (rc_handle loc run c)) = Select) \<or>
      ((\<exists>failed. c = DownloadClicked failed) \<and>
       step (component (rc_handle loc run c)) = Result)"
      by (cases c) (auto simp: handleBack_def handleReset_def handleDownload_def)
  qed
qed

text \<open>C3 at a result state: back twice, to configure and then to select.\<close>

theorem wizard_steps_and_back_navigation_witness:
  "step result_state = Result \<and>
   handleBack result_state = result_state\<lparr>step := Configure, cardData := None\<rparr> \<and>
   step (result_state\<lparr>step := Configure, cardData := None\<rparr>) = Configure \<and>
   handleBack (result_state\<lparr>step := Configure, cardData := None\<rparr>)
     = result_state\<lparr>step := Configure, cardData := None\<rparr>
         \<lparr>step := Select, selectedSituation := None\<rparr>"
proof -
  have r: "step result_state = Result" by (simp add: result_state_def)
  have c: "step (result_state\<lparr>step := Configure, cardData := None\<rparr>) = Configure" by simp
  from wizard_steps_and_back_navigation [where st = result_state] r
  have b1: "handleBack result_state = result_state\<lparr>step := Configure, cardData := None\<rparr>"
    by blast
  from wizard_steps_and_back_navigation
         [where st = "result_state\<lparr>step := Configure, cardData := None\<rparr>"] c
  have b2: "handleBack (result_state\<lparr>step := Configure, cardData := None\<rparr>)
     = result_state\<lparr>step := Configure, cardData := None\<rparr>
         \<lparr>step := Select, selectedSituation := None\<rparr>"
    by blast
  from r b1 c b2 show ?thesis by (intro conjI)
qed

text \<open>
  Claim C5 as stated fails: the interface of the modal has an eleventh field, and the
  interface of the standalone page is a different one.
\<close>

theorem rights_card_shape_counterexample:
  "\<not> has_spec_shape RightsCardData_interface \<and> \<not> has_spec_shape RightsCard_interface \<and>
   map field_name RightsCard_interface \<noteq> map field_name RightsCardData_interface"
  by (simp add: has_spec_shape_def RightsCardData_interface_def RightsCard_interface_def
      card_parts_def)

text \<open>
  Claim C5, amended. The RightsCardData record consumed by the modal has the specified
  parts, each in one field of the specified type (title, situation tag, summary, rights,
  prohibitions, action steps, emergency contacts, cited laws, language tag and mock flag),
  and one more string field, \<open>icon\<close>; only the mock flag is optional.
\<close>

theorem rights_card_shape_with_icon:
  "has_spec_shape (filter (\<lambda>f. field_name f \<noteq> ''icon'') RightsCardData_interface) \<and>
   filter (\<lambda>f. field_name f = ''icon'') RightsCardData_interface
     = [\<lparr>field_name = ''icon'', field_type = TString, optional = False\<rparr>] \<and>
   part_of_field ''icon'' = None \<and>
   map field_name (filter optional RightsCardData_interface) = [''is_mock'']"
  by (simp add: has_spec_shape_def RightsCardData_interface_def card_parts_def holds_part_def
      part_of_field_def)

text \<open>
  Claim C7. When the credentials of the hosted model are absent or the call to it fails,
  \<open>POST /api/chat\<close> answers with status 200 and the canned reply flagged as mock, and
  \<open>POST /api/rights-card\<close>, for a supported situation and language, answers with status 200
  and the canned card flagged as mock.
\<close>

theorem endpoints_fall_back_to_mock:
  "(credentials srv = None \<or> hosted_text srv (chat_prompt srv message loc) = ModelFailed \<longrightarrow>
      api_chat srv message loc session =
        (200, \<lparr>srv_reply = mock_reply srv, srv_category = detect_category srv message,
                srv_is_mock = True\<rparr>)) \<and>
   (sit \<in> set (supported_situations srv) \<and> lang \<in> set (supported_languages srv) \<and>
    (credentials srv = None \<or> hosted_card srv (card_prompt srv sit lang loc) = ModelFailed) \<longrightarrow>
      api_rights_card srv sit lang loc = (200, Inr (mock_card srv sit lang, True)))"
  by (auto simp: api_chat_def api_rights_card_def generate_def split: option.splits)

text \<open>C7 at a server without credentials.\<close>

theorem endpoints_fall_back_to_mock_witness:
  "credentials demo_server = None \<and>
   lit ''arrested'' \<in> set (supported_situations demo_server) \<and>
   lit ''Hindi'' \<in> set (supported_languages demo_server) \<and>
   api_chat demo_server (lit ''My landlord keeps my deposit'') (lit ''Koramangala'') (lit ''s1'') =
     (200, \<lparr>srv_reply = lit ''This is a demo answer.'', srv_category = Some (lit ''property''),
             srv_is_mock = True\<rparr>) \<and>
   api_rights_card demo_server (lit ''arrested'') (lit ''Hindi'') (lit ''Koramangala'') =
     (200, Inr ([lit ''Demo card'', lit ''arrested'', lit ''Hindi''], True))"
proof -
  have c: "credentials demo_server = None" by (simp add: demo_server_def)
  have s: "lit ''arrested'' \<in> set (supported_situations demo_server)"
    by (simp add: demo_server_def)
  have l: "lit ''Hindi'' \<in> set (supported_languages demo_server)"
    by (simp add: demo_server_def)
  have d: "detect_category demo_server (lit ''My landlord keeps my deposit'')
             = Some (lit ''property'')"
    by (simp add: demo_server_def lit_def)
  have m: "mock_reply demo_server = lit ''This is a demo answer.''"
    "mock_card demo_server (lit ''arrested'') (lit ''Hindi'')
       = [lit ''Demo card'', lit ''arrested'', lit ''Hindi'']"
    by (simp_all add: demo_server_def)
  note t = endpoints_fall_back_to_mock [where srv = demo_server
      and message = "lit ''My landlord keeps my deposit''" and loc = "lit ''Koramangala''"
      and session = "lit ''s1''" and sit = "lit ''arrested''" and lang = "lit ''Hindi''"]
  from t c s l show ?thesis unfolding d m by simp
qed

text \<open>
  Claim C9. For a non-empty message list, \<open>saveCurrentChat\<close> stores a chat with these
  messages under the active chat id (a fresh id when there is none). Its title is
  \<open>New Chat\<close> when there is no user message, and otherwise the first 50 code units of the
  first user message, followed by \<open>...\<close> exactly when that message is longer than 50. When
  no stored chat has the id, the chat is put in front of the history with the current time
  as creation time; otherwise it replaces the first stored chat with that id, at the same
  position and with that chat's creation time, all other chats staying as they are. The
  history is written to local storage.
\<close>

theorem saveCurrentChat_stores_titled_chat:
  assumes "msgs \<noteq> []"
  shows "\<exists>stored.
     chat_id stored = chatId_or_new clk (activeChatId st) \<and>
     chat_messages stored = msgs \<and>
     ((\<forall>m \<in> set msgs. role m \<noteq> User) \<longrightarrow> title stored = lit ''New Chat'') \<and>
     (\<forall>pre m post. msgs = pre @ m # post \<and> (\<forall>x \<in> set pre. role x \<noteq> User) \<and> role m = User
        \<longrightarrow> title stored =
              take 50 (content m) @ (if 50 < length (content m) then lit ''...'' else [])) \<and>
     localStorage (saveCurrentChat clk st msgs) = chatHistory (saveCurrentChat clk st msgs) \<and>
     (chatId_or_new clk (activeChatId st) \<notin> chat_id ` set (chatHistory st) \<longrightarrow>
        createdAt stored = created_iso clk \<and>
        chatHistory (saveCurrentChat clk st msgs) = stored # chatHistory st) \<and>
     (chatId_or_new clk (activeChatId st) \<in> chat_id ` set (chatHistory st) \<longrightarrow>
        (\<exists>i < length (chatHistory st).
           chat_id (chatHistory st ! i) = chatId_or_new clk (activeChatId st) \<and>
           (\<forall>j < i. chat_id (chatHistory st ! j) \<noteq> chatId_or_new clk (activeChatId st)) \<and>
           createdAt stored = createdAt (chatHistory st ! i) \<and>
           chatHistory (saveCurrentChat clk st msgs) = (chatHistory st)[i := stored]))"
proof -
  let ?cid = "chatId_or_new clk (activeChatId st)"
  have ls: "localStorage (saveCurrentChat clk st msgs) = chatHistory (saveCurrentChat clk st msgs)"
    using assms by (simp add: saveCurrentChat_def Let_def)
  show ?thesis
  proof (cases "?cid \<in> chat_id ` set (chatHistory st)")
    case False
    let ?s = "\<lparr>chat_id = ?cid, title = chat_title msgs, chat_messages = msgs,
                createdAt = created_iso clk\<rparr>"
    have "chatHistory (saveCurrentChat clk st msgs) = ?s # chatHistory st"
      using saveCurrentChat_new(1) [OF assms False] .
    with False ls show ?thesis
      by (intro exI [of _ ?s]) (simp add: chat_title_no_user chat_title_first_user)
  next
    case True
    from saveCurrentChat_existing [OF assms True] obtain i where
      i: "i < length (chatHistory st)" "chat_id (chatHistory st ! i) = ?cid"
         "\<forall>j < i. chat_id (chatHistory st ! j) \<noteq> ?cid"
         "chatHistory (saveCurrentChat clk st msgs) =
            (chatHistory st)[i := \<lparr>chat_id = ?cid, title = chat_title msgs,
                                   chat_messages = msgs,
                                   createdAt = createdAt (chatHistory st ! i)\<rparr>]"
      by blast
    let ?s = "\<lparr>chat_id = ?cid, title = chat_title msgs, chat_messages = msgs,
                createdAt = createdAt (chatHistory st ! i)\<rparr>"
    have "\<exists>k < length (chatHistory st).
           chat_id (chatHistory st ! k) = ?cid \<and>
           (\<forall>j < k. chat_id (chatHistory st ! j) \<noteq> ?cid) \<and>
           createdAt ?s = createdAt (chatHistory st ! k) \<and>
           chatHistory (saveCurrentChat clk st msgs) = (chatHistory st)[k := ?s]"
      using i by (intro exI [of _ i]) simp
    with True ls show ?thesis
      by (intro exI [of _ ?s]) (simp add: chat_title_no_user chat_title_first_user)
  qed
qed

text \<open>
  C9 at the first exchange of a conversation, once with an empty history and once with the
  active chat stored as the second of two.
\<close>

theorem saveCurrentChat_stores_titled_chat_witness:
  "first_exchange \<noteq> [] \<and>
   (\<exists>stored. chatHistory (saveCurrentChat clk0 app0 first_exchange) = [stored] \<and>
      title stored = lit ''first'' \<and> chat_messages stored = first_exchange \<and>
      createdAt stored = lit ''2023-11-14T22:13:20.951Z'') \<and>
   (\<exists>stored. chatHistory (saveCurrentChat clk0 app_two first_exchange)
        = [stored_two ! 0, stored] \<and>
      chat_id stored = lit ''chat_1699980000000_d4e5f6'' \<and>
      chat_messages stored = first_exchange \<and>
      createdAt stored = lit ''2023-11-14T16:40:00.000Z'')"
proof -
  have h: "first_exchange \<noteq> []" by (simp add: first_exchange_def)
  from saveCurrentChat_stores_titled_chat [OF h, of clk0 app0] obtain stored0 where
    msgs: "chat_messages stored0 = first_exchange" and
    ttl: "\<forall>pre m post. first_exchange = pre @ m # post \<and> (\<forall>x \<in> set pre. role x \<noteq> User) \<and>
            role m = User
          \<longrightarrow> title stored0 =
                take 50 (content m) @ (if 50 < length (content m) then lit ''...'' else [])" and
    new: "chatId_or_new clk0 (activeChatId app0) \<notin> chat_id ` set (chatHistory app0) \<longrightarrow>
            createdAt stored0 = created_iso clk0 \<and>
            chatHistory (saveCurrentChat clk0 app0 first_exchange) = stored0 # chatHistory app0"
    by blast
  have e0: "chatHistory app0 = []" by (simp add: app0_def)
  from new e0 have hist0: "chatHistory (saveCurrentChat clk0 app0 first_exchange) = [stored0]"
    and cr: "createdAt stored0 = lit ''2023-11-14T22:13:20.951Z''"
    by (simp_all add: clk0_def)
  let ?m = "\<lparr>msg_id = lit ''1699999999100_user'', role = User, content = lit ''first'',
             timestamp = 1699999999100, category = None\<rparr>"
  let ?b = "\<lparr>msg_id = lit ''1699999999800_bot'', role = Bot, content = lit ''answer'',
             timestamp = 1699999999800, category = Some (lit ''property'')\<rparr>"
  have "first_exchange = [] @ ?m # [?b] \<and> (\<forall>x \<in> set []. role x \<noteq> User) \<and> role ?m = User"
    by (simp add: first_exchange_def)
  with ttl have "title stored0 =
      take 50 (content ?m) @ (if 50 < length (content ?m) then lit ''...'' else [])"
    by blast
  then have t: "title stored0 = lit ''first''" by (simp add: lit_def)
  let ?cid = "lit ''chat_1699980000000_d4e5f6''"
  have cid: "chatId_or_new clk0 (activeChatId app_two) = ?cid"
    by (simp add: app_two_def chatId_or_new_def lit_def)
  have hist: "chatHistory app_two = stored_two" by (simp add: app_two_def)
  have ids: "chat_id (stored_two ! 0) \<noteq> ?cid" "chat_id (stored_two ! 1) = ?cid"
    "length stored_two = 2"
    by (simp_all add: stored_two_def lit_def)
  have mem: "chatId_or_new clk0 (activeChatId app_two) \<in> chat_id ` set (chatHistory app_two)"
    unfolding cid hist by (simp add: stored_two_def)
  from saveCurrentChat_stores_titled_chat [OF h, of clk0 app_two] mem obtain stored i where
    a: "chat_id stored = chatId_or_new clk0 (activeChatId app_two)"
       "chat_messages stored = first_exchange"
       "i < length (chatHistory app_two)"
       "chat_id (chatHistory app_two ! i) = chatId_or_new clk0 (activeChatId app_two)"
       "createdAt stored = createdAt (chatHistory app_two ! i)"
       "chatHistory (saveCurrentChat clk0 app_two first_exchange)
          = (chatHistory app_two)[i := stored]"
    by blast
  from a(3,4) ids have i: "i = 1" unfolding cid hist by (cases i) auto
  have "stored_two[1 := stored] = [stored_two ! 0, stored]"
    by (simp add: stored_two_def)
  with a i have e: "chatHistory (saveCurrentChat clk0 app_two first_exchange)
        = [stored_two ! 0, stored]"
    unfolding hist by simp
  have c: "createdAt stored = lit ''2023-11-14T16:40:00.000Z''"
    using a(5) i unfolding hist by (simp add: stored_two_def)
  have second: "\<exists>stored. chatHistory (saveCurrentChat clk0 app_two first_exchange)
        = [stored_two ! 0, stored] \<and>
      chat_id stored = lit ''chat_1699980000000_d4e5f6'' \<and>
      chat_messages stored = first_exchange \<and>
      createdAt stored = lit ''2023-11-14T16:40:00.000Z''"
    using e a(1,2) c cid by (intro exI [of _ stored]) simp
  have first: "\<exists>stored. chatHistory (saveCurrentChat clk0 app0 first_exchange) = [stored] \<and>
      title stored = lit ''first'' \<and> chat_messages stored = first_exchange \<and>
      createdAt stored = lit ''2023-11-14T22:13:20.951Z''"
    using hist0 t msgs cr by (intro exI [of _ stored0]) simp
  from h first second show ?thesis by (intro conjI)
qed

text \<open>
  Claim C10. \<open>groupByDate\<close> partitions the chats: every group it returns carries one of
  the four labels, is non-empty, and holds exactly the chats whose creation date falls
  under its label, in the order of the input; no two groups share a label; every chat is in
  the group of its label, and in no other; and every chat occurs in the groups together as
  often as in the input.
\<close>

theorem groupByDate_partitions:
  "(\<forall>g \<in> set (groupByDate cal now cs).
      label g \<in> {lit ''Today'', lit ''Yesterday'', lit ''Previous 7 Days'', lit ''Older''} \<and>
      chats g \<noteq> [] \<and>
      chats g = filter (\<lambda>c. day_label cal now c = label g) cs) \<and>
   distinct (map label (groupByDate cal now cs)) \<and>
   (\<forall>c \<in> set cs. \<exists>g \<in> set (groupByDate cal now cs).
      label g = day_label cal now c \<and> c \<in> set (chats g)) \<and>
   (\<forall>g \<in> set (groupByDate cal now cs). \<forall>g' \<in> set (groupByDate cal now cs).
      \<forall>c. c \<in> set (chats g) \<and> c \<in> set (chats g') \<longrightarrow> g = g') \<and>
   (\<forall>c. count_list (concat (map chats (groupByDate cal now cs))) c = count_list cs c)"
proof (intro conjI ballI allI impI)
  fix g assume g: "g \<in> set (groupByDate cal now cs)"
  then have m: "label g \<in> set group_labels \<and> chats g \<noteq> [] \<and>
     chats g = filter (\<lambda>c. day_label cal now c = label g) cs"
    by (rule iffD1 [OF groupByDate_member])
  from m show "label g \<in> {lit ''Today'', lit ''Yesterday'', lit ''Previous 7 Days'', lit ''Older''}"
    by (simp add: group_labels_def)
  from m show "chats g \<noteq> []" by blast
  from m show "chats g = filter (\<lambda>c. day_label cal now c = label g) cs" by blast
next
  show "distinct (map label (groupByDate cal now cs))" by (rule groupByDate_labels_distinct)
next
  fix c assume c: "c \<in> set cs"
  let ?g = "\<lparr>label = day_label cal now c,
             chats = filter (\<lambda>x. day_label cal now x = day_label cal now c) cs\<rparr>"
  have "c \<in> set (chats ?g)" using c by simp
  moreover from this have "?g \<in> set (groupByDate cal now cs)"
    by (auto simp: groupByDate_member day_label_in_labels filter_empty_conv)
  ultimately show "\<exists>g \<in> set (groupByDate cal now cs).
      label g = day_label cal now c \<and> c \<in> set (chats g)"
    by (intro bexI [of _ ?g]) simp_all
next
  fix g g' c
  assume g: "g \<in> set (groupByDate cal now cs)" and g': "g' \<in> set (groupByDate cal now cs)"
    and c: "c \<in> set (chats g) \<and> c \<in> set (chats g')"
  from g have cg: "chats g = filter (\<lambda>c. day_label cal now c = label g) cs"
    using groupByDate_member by blast
  from g' have cg': "chats g' = filter (\<lambda>c. day_label cal now c = label g') cs"
    using groupByDate_member by blast
  from c cg have "c \<in> set (filter (\<lambda>c. day_label cal now c = label g) cs)" by metis
  then have "day_label cal now c = label g" by simp
  moreover from c cg' have "c \<in> set (filter (\<lambda>c. day_label cal now c = label g') cs)"
    by metis
  then have "day_label cal now c = label g'" by simp
  ultimately have "label g = label g'" by simp
  with cg cg' show "g = g'" by simp
next
  fix c
  show "count_list (concat (map chats (groupByDate cal now cs))) c = count_list cs c"
    by (rule groupByDate_count)
qed

text \<open>C10 at three chats: one of today, one older, one without a valid date.\<close>

theorem groupByDate_partitions_witness:
  "session_undated \<in> set [session_old, session_today, session_undated] \<and>
   \<lparr>label = lit ''Older'', chats = [session_old, session_undated]\<rparr>
     \<in> set (groupByDate utc_calendar (TimeValue 1700000000000)
              [session_old, session_today, session_undated]) \<and>
   [session_old, session_undated] =
     filter (\<lambda>c. day_label utc_calendar (TimeValue 1700000000000) c = lit ''Older'')
       [session_old, session_today, session_undated] \<and>
   distinct (map label (groupByDate utc_calendar (TimeValue 1700000000000)
                          [session_old, session_today, session_undated]))"
proof -
  let ?cs = "[session_old, session_today, session_undated]"
  let ?g = "\<lparr>label = lit ''Older'', chats = [session_old, session_undated]\<rparr>"
  have m: "?g \<in> set (groupByDate utc_calendar (TimeValue 1700000000000) ?cs)"
    unfolding groupByDate_sample by simp
  note t = groupByDate_partitions [of utc_calendar "TimeValue 1700000000000" ?cs]
  from t have a: "\<forall>g \<in> set (groupByDate utc_calendar (TimeValue 1700000000000) ?cs).
      label g \<in> {lit ''Today'', lit ''Yesterday'', lit ''Previous 7 Days'', lit ''Older''} \<and>
      chats g \<noteq> [] \<and>
      chats g = filter (\<lambda>c. day_label utc_calendar (TimeValue 1700000000000) c = label g) ?cs"
    by (rule conjunct1)
  from t have b: "distinct (map label
      (groupByDate utc_calendar (TimeValue 1700000000000) ?cs))"
    by (elim conjE)
  have sel: "label ?g = lit ''Older''" "chats ?g = [session_old, session_undated]"
    by simp_all
  from bspec [OF a m] have "chats ?g =
      filter (\<lambda>c. day_label utc_calendar (TimeValue 1700000000000) c = label ?g) ?cs"
    by (elim conjE)
  then have c: "[session_old, session_undated] =
      filter (\<lambda>c. day_label utc_calendar (TimeValue 1700000000000) c = lit ''Older'') ?cs"
    unfolding sel .
  have d: "session_undated \<in> set ?cs" by simp
  from d m c b show ?thesis by (intro conjI)
qed

end
